theory Spec2Isabelle
  imports Main "HOL-Library.AList"
begin

section \<open>Query parameters\<close>

text \<open>
  \<^verbatim>\<open>r.URL.Query()\<close> is a \<^verbatim>\<open>url.Values\<close>; the handler only ever reads it with
  \<^verbatim>\<open>Get(key)\<close>, which returns the first value stored under the key and the empty string
  when there is none. The query is kept as the list of its key/value pairs in the order of
  the URL, so that the first pair with the key is the one \<^verbatim>\<open>Get\<close> returns.
\<close>

type_synonym query = "(string \<times> string) list"

definition query_get :: "query \<Rightarrow> string \<Rightarrow> string" where
  "query_get q k = (case map_of q k of None \<Rightarrow> [] | Some v \<Rightarrow> v)"

text \<open>
  \<^verbatim>\<open>strings.EqualFold\<close> compares under Unicode simple case folding. The handler calls it
  with the constant \<^verbatim>\<open>"true"\<close> only; none of the letters t, r, u, e has a fold partner
  outside ASCII, so folding the ASCII capitals is exact for these calls.
\<close>

definition to_lower :: "char \<Rightarrow> char" where
  "to_lower c =
     (if 65 \<le> (of_char c :: nat) \<and> (of_char c :: nat) \<le> 90
      then char_of (of_char c + 32 :: nat) else c)"

definition EqualFold :: "string \<Rightarrow> string \<Rightarrow> bool" where
  "EqualFold s t = (map to_lower s = map to_lower t)"

text \<open>
  \<^verbatim>\<open>strconv.ParseInt(s, 10, 64)\<close>: an optional sign, then one or more decimal digits
  (no underscores in base 10), the value within the signed 64-bit range. Every other input
  is an error, here \<open>None\<close>.
\<close>

definition is_digit :: "char \<Rightarrow> bool" where
  "is_digit c = (48 \<le> (of_char c :: nat) \<and> (of_char c :: nat) \<le> 57)"

definition digit_val :: "char \<Rightarrow> int" where
  "digit_val c = int (of_char c) - 48"

fun digits_val :: "int \<Rightarrow> string \<Rightarrow> int" where
  "digits_val acc [] = acc"
| "digits_val acc (c # cs) = digits_val (acc * 10 + digit_val c) cs"

definition ParseUint :: "string \<Rightarrow> int option" where
  "ParseUint s =
     (if s = [] \<or> \<not> list_all is_digit s then None else Some (digits_val 0 s))"

definition ParseInt :: "string \<Rightarrow> int option" where
  "ParseInt s =
     (if s = [] then None
      else let neg = (hd s = CHR ''-'');
               s1 = (if hd s = CHR ''+'' \<or> hd s = CHR ''-'' then tl s else s)
           in case ParseUint s1 of
                None \<Rightarrow> None
              | Some un \<Rightarrow>
                  if \<not> neg \<and> un \<ge> 2 ^ 63 then None
                  else if neg \<and> un > 2 ^ 63 then None
                  else Some (if neg then - un else un))"

section \<open>Objects, events and errors of the backing store\<close>

type_synonym gvr = "string \<times> string \<times> string"
type_synonym gvk = "string \<times> string \<times> string"

record obj =
  obj_gvk :: gvk
  obj_rv :: string
  obj_body :: string

record obj_list =
  list_gvk :: gvk
  list_rv :: string
  list_items :: "obj list"

text \<open>
  A value of Go's \<^verbatim>\<open>any\<close> as the transform hooks return it: an object list (a
  \<^verbatim>\<open>runtime.Object\<close> that \<^verbatim>\<open>meta.ExtractList\<close> accepts), a single object (a
  \<^verbatim>\<open>runtime.Object\<close> that is no list), or a value that is no \<^verbatim>\<open>runtime.Object\<close>.
\<close>

datatype any_val = AnyList obj_list | AnyObj obj | AnyOther string

text \<open>
  An error of the backing client. \<open>NotFoundErr\<close> stands for the errors
  \<^verbatim>\<open>apierrors.IsNotFound\<close> accepts, \<open>StatusErr code msg\<close> for any other
  \<^verbatim>\<open>*apierrors.StatusError\<close> with its status code, \<open>PlainErr\<close> for an error that is no
  status error.
\<close>

datatype backing_error = NotFoundErr string | StatusErr nat string | PlainErr string

fun err_Error :: "backing_error \<Rightarrow> string" where
  "err_Error (NotFoundErr m) = m"
| "err_Error (StatusErr c m) = m"
| "err_Error (PlainErr m) = m"

fun IgnoreNotFound :: "backing_error \<Rightarrow> backing_error option" where
  "IgnoreNotFound (NotFoundErr m) = None"
| "IgnoreNotFound e = Some e"

text \<open>\<^verbatim>\<open>errors.As(err, &se) && se.ErrStatus.Code == http.StatusGone\<close>\<close>

fun is_gone :: "backing_error \<Rightarrow> bool" where
  "is_gone (StatusErr c m) = (c = 410)"
| "is_gone (NotFoundErr m) = False"
| "is_gone (PlainErr m) = False"

text \<open>
  \<^verbatim>\<open>watch.EventType\<close> is a string type; these are the five constants apimachinery
  defines for it, and the only values a backing watch delivers.
\<close>

datatype EventType = Added | Modified | Deleted | Bookmark | Error

text \<open>
  The dynamic type of \<^verbatim>\<open>event.Object\<close>: nil, a \<^verbatim>\<open>*metav1.Status\<close> (code and message),
  an \<^verbatim>\<open>*unstructured.Unstructured\<close>, or some other \<^verbatim>\<open>runtime.Object\<close>.
\<close>

datatype runtime_object = Nil | Status nat string | Unstructured obj | Typed obj

record Event =
  Type :: EventType
  Object :: runtime_object

fun SetGroupVersionKind :: "gvk \<Rightarrow> runtime_object \<Rightarrow> runtime_object" where
  "SetGroupVersionKind k (Unstructured u) = Unstructured (u\<lparr>obj_gvk := k\<rparr>)"
| "SetGroupVersionKind k (Typed u) = Typed (u\<lparr>obj_gvk := k\<rparr>)"
| "SetGroupVersionKind k (Status c m) = Status c m"
| "SetGroupVersionKind k Nil = Nil"

text \<open>
  What one \<^verbatim>\<open>select\<close> of the streaming loop observes: the request context is done, the
  result channel of the watcher is closed, or the channel delivers an event.
\<close>

datatype select = CtxDone | ChanClosed | Recv Event

section \<open>Responses\<close>

text \<open>
  The values handed to \<^verbatim>\<open>json.Encoder.Encode\<close>: the handler's own \<^verbatim>\<open>watchEvent\<close>
  struct, the backing \<^verbatim>\<open>watch.Event\<close> as it was received, or a value of type
  \<^verbatim>\<open>any\<close> (the object list itself when no hook replaced it).
\<close>

datatype encoded =
    EncWatchEvent EventType any_val
  | EncEvent Event
  | EncAny any_val

text \<open>
  The keys of the JSON object that \<^verbatim>\<open>encoding/json\<close> writes for the two event structs.
  \<^verbatim>\<open>watchEvent\<close> carries the tags \<^verbatim>\<open>json:"type"\<close> and \<^verbatim>\<open>json:"object"\<close>;
  \<^verbatim>\<open>watch.Event\<close> of apimachinery declares its fields \<^verbatim>\<open>Type\<close> and \<^verbatim>\<open>Object\<close>
  without tags, so the encoder uses the field names. The keys of a list or of a hook's
  value depend on the payload and are not modelled.
\<close>

fun json_keys :: "encoded \<Rightarrow> string list option" where
  "json_keys (EncWatchEvent t v) = Some [''type'', ''object'']"
| "json_keys (EncEvent e) = Some [''Type'', ''Object'']"
| "json_keys (EncAny v) = None"

datatype ResourceVersionMatch = Exact | NotOlderThan

datatype selector = Selector string

record metav1_ListOptions =
  ResourceVersion :: string
  ResourceVersionMatch :: "ResourceVersionMatch option"
  TimeoutSeconds :: "int option"
  SendInitialEvents :: "bool option"
  Watch :: bool
  AllowWatchBookmarks :: bool
  LabelSelector :: string
  FieldSelector :: string

definition metav1_ListOptions_zero :: metav1_ListOptions where
  "metav1_ListOptions_zero =
     \<lparr>ResourceVersion = [], ResourceVersionMatch = None, TimeoutSeconds = None,
      SendInitialEvents = None, Watch = False, AllowWatchBookmarks = False,
      LabelSelector = [], FieldSelector = []\<rparr>"

record client_ListOptions =
  Namespace :: string
  Limit :: int
  Continue :: string
  LabelSelector_parsed :: "selector option"
  FieldSelector_parsed :: "selector option"
  Raw :: metav1_ListOptions

text \<open>
  Everything the handler does that is visible outside it, in order: what it writes to the
  \<^verbatim>\<open>http.ResponseWriter\<close> and which operations of the backing store it invokes.
\<close>

datatype effect =
    HttpError string nat
  | HttpNotFound
  | SetContentType string
  | Encode encoded
  | Flush
  | CallGet string string
  | CallList client_ListOptions
  | CallWatch gvr string metav1_ListOptions
  | WatcherStop

text \<open>
  How a run of the handler ends: it returns, it panics, or it is still blocked in the
  \<^verbatim>\<open>select\<close> of the streaming loop when the observed schedule ends.
\<close>

datatype outcome = Returned | Panicked string | Blocked

type_synonym run = "effect list \<times> outcome"

definition emit :: "effect list \<Rightarrow> run \<Rightarrow> run" where
  "emit es r = (es @ fst r, snd r)"

section \<open>The server's collaborators\<close>

text \<open>
  What the handler consults outside itself: the REST mapper and the two clients of the
  server (\<^verbatim>\<open>s.KubeClient\<close>, \<^verbatim>\<open>s.DynamicKubeCluient\<close>), the selector parsers of
  apimachinery, and whether \<^verbatim>\<open>Encode\<close> fails on a value (\<open>Some\<close> of the error text).
  \<^verbatim>\<open>Dynamic_Watch\<close> returns the error of opening the watch, if any; what the opened
  watcher and the request context deliver is the \<open>Selects\<close> field of the request.
\<close>

record Env =
  KindFor :: "gvr \<Rightarrow> string + gvk"
  KubeClient_Get :: "string \<Rightarrow> string \<Rightarrow> obj \<Rightarrow> backing_error + obj"
  KubeClient_List :: "obj_list \<Rightarrow> client_ListOptions \<Rightarrow> backing_error + obj_list"
  Dynamic_Watch :: "gvr \<Rightarrow> string \<Rightarrow> metav1_ListOptions \<Rightarrow> backing_error option"
  labels_Parse :: "string \<Rightarrow> string + selector"
  fields_ParseSelector :: "string \<Rightarrow> string + selector"
  Encode_err :: "encoded \<Rightarrow> string option"

record Resource =
  CreateNew :: "gvr \<times> obj"
  CreateNewList :: "gvr \<times> obj_list"
  ListCallback :: "(string \<Rightarrow> string \<Rightarrow> obj_list \<Rightarrow> string + any_val) option"
  WatchCallback :: "(string \<Rightarrow> string \<Rightarrow> obj \<Rightarrow> string + any_val) option"

record Request =
  Method :: string
  Query :: query
  Flusher :: bool
  Selects :: "select list"

section \<open>handleResourceFunc: the watch branch\<close>

text \<open>
  The local variables of the watch branch, each as a function of the query (and, for the
  field selector, of the path name).
\<close>

definition allowBookmarks :: "query \<Rightarrow> bool" where
  "allowBookmarks q = EqualFold (query_get q ''allowWatchBookmarks'') ''true''"

definition rvm :: "query \<Rightarrow> ResourceVersionMatch" where
  "rvm q =
     (let m = query_get q ''resourceVersionMatch''
      in if m = ''Exact'' then Exact
         else if m = ''NotOlderThan'' then NotOlderThan
         else NotOlderThan)"

definition sendInitial :: "query \<Rightarrow> bool" where
  "sendInitial q =
     (let rv = query_get q ''resourceVersion'';
          sip = query_get q ''sendInitialEvents''
      in if sip \<noteq> [] then EqualFold sip ''true'' else (rv = [] \<or> rv = ''0''))"

definition timeoutSec :: "query \<Rightarrow> int" where
  "timeoutSec q =
     (let rawTimeoutSec = query_get q ''timeoutSeconds''
      in if rawTimeoutSec \<noteq> [] then
           (case ParseInt rawTimeoutSec of
              Some v \<Rightarrow> if v > 0 then v else 60
            | None \<Rightarrow> 60)
         else 60)"

definition fs :: "query \<Rightarrow> string \<Rightarrow> string" where
  "fs q name = (if name \<noteq> [] then ''metadata.name='' @ name else query_get q ''fieldSelector'')"

definition watch_listOpts :: "query \<Rightarrow> string \<Rightarrow> metav1_ListOptions" where
  "watch_listOpts q name =
     \<lparr>ResourceVersion = query_get q ''resourceVersion'',
      ResourceVersionMatch = Some (rvm q),
      TimeoutSeconds = Some (timeoutSec q),
      SendInitialEvents = Some (sendInitial q),
      Watch = True,
      AllowWatchBookmarks = allowBookmarks q,
      LabelSelector = query_get q ''labelSelector'',
      FieldSelector = fs q name\<rparr>"

text \<open>
  The body of the streaming loop for one received event: it either returns from the
  handler or goes on to the next \<^verbatim>\<open>select\<close>, in both cases after the effects given.
\<close>

datatype step = Return "effect list" | Next "effect list"

definition on_event ::
  "Env \<Rightarrow> Resource \<Rightarrow> gvk \<Rightarrow> string \<Rightarrow> string \<Rightarrow> bool \<Rightarrow> Event \<Rightarrow> step" where
  "on_event s res newKind namespace name allow event =
     (if Type event = Error then
        (case Object event of
           Status code message \<Rightarrow> Return [HttpError (''watch error: '' @ message) code]
         | _ \<Rightarrow> Return [HttpError ''watch error: unknown'' 500])
      else if Type event = Bookmark then
        (if allow then
           (case Encode_err s (EncEvent event) of
              Some err \<Rightarrow> Return [HttpError (''failed to send bookmark: '' @ err) 500]
            | None \<Rightarrow> Next [Encode (EncEvent event), Flush])
         else Next [])
      else if Object event = Nil then Next []
      else
        (case SetGroupVersionKind newKind (Object event) of
           Unstructured unstructuredObj \<Rightarrow>
             (case (case WatchCallback res of
                      None \<Rightarrow> Inr (AnyObj unstructuredObj)
                    | Some watchCallback \<Rightarrow> watchCallback namespace name unstructuredObj) of
                Inl err \<Rightarrow> Return [HttpError (''watch error: '' @ err) 500]
              | Inr v \<Rightarrow>
                  (case Encode_err s (EncWatchEvent (Type event) v) of
                     Some err \<Rightarrow>
                       Return [HttpError (''failed to encode watch response: '' @ err) 500]
                   | None \<Rightarrow> Next [Encode (EncWatchEvent (Type event) v), Flush]))
         | _ \<Rightarrow> Return [HttpError ''failed to cast to unstructured'' 500]))"

text \<open>
  The \<^verbatim>\<open>for { select { ... } }\<close> loop, run over the sequence of what its successive
  \<^verbatim>\<open>select\<close> statements observe. When the sequence ends the loop is blocked in
  \<^verbatim>\<open>select\<close>.
\<close>

fun watch_loop ::
  "Env \<Rightarrow> Resource \<Rightarrow> gvk \<Rightarrow> string \<Rightarrow> string \<Rightarrow> bool \<Rightarrow> select list \<Rightarrow> run" where
  "watch_loop s res newKind namespace name allow [] = ([], Blocked)"
| "watch_loop s res newKind namespace name allow (CtxDone # rest) = ([WatcherStop], Returned)"
| "watch_loop s res newKind namespace name allow (ChanClosed # rest) = ([], Returned)"
| "watch_loop s res newKind namespace name allow (Recv event # rest) =
     (case on_event s res newKind namespace name allow event of
        Return es \<Rightarrow> (es, Returned)
      | Next es \<Rightarrow> emit es (watch_loop s res newKind namespace name allow rest))"

definition stream_content_type :: string where
  "stream_content_type = ''application/json;stream=watch; charset=utf-8''"

definition handle_watch ::
  "Env \<Rightarrow> Resource \<Rightarrow> gvr \<Rightarrow> gvk \<Rightarrow> string \<Rightarrow> string \<Rightarrow> Request \<Rightarrow> run" where
  "handle_watch s res newGVR newKind namespace name r =
     (if \<not> Flusher r then
        ([HttpError ''streaming not supported by server'' 500], Returned)
      else if sendInitial (Query r) \<and> rvm (Query r) \<noteq> NotOlderThan then
        ([SetContentType stream_content_type,
          HttpError ''sendInitialEvents requires resourceVersionMatch=NotOlderThan'' 400],
         Returned)
      else
        (let listOpts = watch_listOpts (Query r) name
         in case Dynamic_Watch s newGVR namespace listOpts of
              Some err \<Rightarrow>
                (if is_gone err then
                   ([SetContentType stream_content_type, CallWatch newGVR namespace listOpts,
                     HttpError (err_Error err) 410], Returned)
                 else
                   ([SetContentType stream_content_type, CallWatch newGVR namespace listOpts,
                     HttpError (''failed to initialize watcher: '' @ err_Error err) 500],
                    Returned))
            | None \<Rightarrow>
                emit [SetContentType stream_content_type, CallWatch newGVR namespace listOpts]
                  (watch_loop s res newKind namespace name (allowBookmarks (Query r))
                     (Selects r))))"

section \<open>handleResourceFunc: the get and list branches\<close>

definition limit :: "query \<Rightarrow> int" where
  "limit q =
     (let rawLimit = query_get q ''limit''
      in if rawLimit \<noteq> [] then
           (case ParseInt rawLimit of
              Some l \<Rightarrow> if l > 0 \<and> l \<le> 1000 then l else 500
            | None \<Rightarrow> 500)
         else 500)"

text \<open>
  The \<^verbatim>\<open>client.ListOptions\<close> of the list branch, or the 400 response of a selector that
  does not parse.
\<close>

definition list_listOpts :: "Env \<Rightarrow> string \<Rightarrow> query \<Rightarrow> effect + client_ListOptions" where
  "list_listOpts s namespace q =
     (let ls = query_get q ''labelSelector'';
          fsel = query_get q ''fieldSelector''
      in case (if ls \<noteq> [] then map_sum id Some (labels_Parse s ls) else Inr None) of
           Inl err \<Rightarrow> Inl (HttpError (''failed to parse labelSelector: '' @ err) 400)
         | Inr labelSel \<Rightarrow>
             (case (if fsel \<noteq> [] then map_sum id Some (fields_ParseSelector s fsel)
                    else Inr None) of
                Inl err \<Rightarrow> Inl (HttpError (''failed to parse fieldSelector: '' @ err) 400)
              | Inr fieldSel \<Rightarrow>
                  Inr \<lparr>Namespace = namespace,
                       Limit = limit q,
                       Continue = query_get q ''continue'',
                       LabelSelector_parsed = labelSel,
                       FieldSelector_parsed = fieldSel,
                       Raw = metav1_ListOptions_zero
                         \<lparr>ResourceVersion := query_get q ''resourceVersion'',
                          ResourceVersionMatch := Some (rvm q)\<rparr>\<rparr>))"

definition json_content_type :: string where
  "json_content_type = ''application/json; charset=utf-8''"

fun is_runtime_Object :: "any_val \<Rightarrow> bool" where
  "is_runtime_Object (AnyList l) = True"
| "is_runtime_Object (AnyObj x) = True"
| "is_runtime_Object (AnyOther v) = False"

text \<open>\<^verbatim>\<open>meta.ExtractList\<close>: the items of a list object, an error for any other object.\<close>

fun ExtractList :: "any_val \<Rightarrow> string + obj list" where
  "ExtractList (AnyList l) = Inr (list_items l)"
| "ExtractList v = Inl ''object does not implement the List interfaces''"

text \<open>
  Lines 591 to 597: on the single-object path the result is replaced by element 0 of its
  extracted list. Go panics when the slice is empty.
\<close>

definition unwrap :: "string \<Rightarrow> any_val \<Rightarrow> string + any_val" where
  "unwrap name v =
     (if name \<noteq> [] \<and> is_runtime_Object v then
        (case ExtractList v of
           Inr items \<Rightarrow>
             (case items of
                [] \<Rightarrow> Inl ''runtime error: index out of range [0] with length 0''
              | x # xs \<Rightarrow> Inr (AnyObj x))
         | Inl err \<Rightarrow> Inr v)
      else Inr v)"

definition encode_response :: "Env \<Rightarrow> any_val \<Rightarrow> run" where
  "encode_response s v =
     (case Encode_err s (EncAny v) of
        Some err \<Rightarrow> ([HttpError (''failed to encode response: '' @ err) 500], Returned)
      | None \<Rightarrow> ([Encode (EncAny v)], Returned))"

text \<open>Lines 562 to 602: everything after the backing call has filled \<^verbatim>\<open>items\<close>.\<close>

definition respond ::
  "Env \<Rightarrow> Resource \<Rightarrow> gvk \<Rightarrow> gvk \<Rightarrow> string \<Rightarrow> string \<Rightarrow> obj_list \<Rightarrow> run" where
  "respond s res newKind newKindList namespace name items0 =
     emit [SetContentType json_content_type]
       (let items = items0\<lparr>list_gvk := newKindList\<rparr>
        in if length (list_items items) = 0 then encode_response s (AnyList items)
           else
             (let items = items\<lparr>list_items :=
                            map (\<lambda>x. x\<lparr>obj_gvk := newKind\<rparr>) (list_items items)\<rparr>
              in case (case ListCallback res of
                         None \<Rightarrow> Inr (AnyList items)
                       | Some listCallback \<Rightarrow> listCallback namespace name items) of
                   Inl err \<Rightarrow> ([HttpError (''failed to list tasks: '' @ err) 500], Returned)
                 | Inr v \<Rightarrow>
                     (case unwrap name v of
                        Inl p \<Rightarrow> ([], Panicked p)
                      | Inr v' \<Rightarrow> encode_response s v')))"

definition handle_get_list ::
  "Env \<Rightarrow> Resource \<Rightarrow> gvk \<Rightarrow> gvk \<Rightarrow> string \<Rightarrow> string \<Rightarrow> Request \<Rightarrow> run" where
  "handle_get_list s res newKind newKindList namespace name r =
     (let items = snd (CreateNewList res)
      in if name \<noteq> [] then
           (case KubeClient_Get s namespace name (snd (CreateNew res)) of
              Inl err \<Rightarrow>
                (case IgnoreNotFound err of
                   Some e \<Rightarrow>
                     ([CallGet namespace name,
                       HttpError (''failed to get task: '' @ err_Error err) 500], Returned)
                 | None \<Rightarrow> ([CallGet namespace name, HttpNotFound], Returned))
            | Inr item \<Rightarrow>
                emit [CallGet namespace name]
                  (respond s res newKind newKindList namespace name
                     (items\<lparr>list_rv := obj_rv item, list_items := [item]\<rparr>)))
         else
           (case list_listOpts s namespace (Query r) of
              Inl e \<Rightarrow> ([e], Returned)
            | Inr listOpts \<Rightarrow>
                (case KubeClient_List s items listOpts of
                   Inl err \<Rightarrow>
                     (if is_gone err then
                        ([CallList listOpts, HttpError (err_Error err) 410], Returned)
                      else
                        ([CallList listOpts,
                          HttpError (''failed to list tasks: '' @ err_Error err) 500], Returned))
                 | Inr items' \<Rightarrow>
                     emit [CallList listOpts]
                       (respond s res newKind newKindList namespace name items'))))"

section \<open>handleResourceFunc\<close>

text \<open>
  The four function arguments \<^verbatim>\<open>createNew\<close>, \<^verbatim>\<open>createNewList\<close>, \<^verbatim>\<open>listCallback\<close> and
  \<^verbatim>\<open>watchCallback\<close> are always the fields of one \<^verbatim>\<open>Resource\<close> and are passed as that
  record.
\<close>

definition handleResourceFunc ::
  "Env \<Rightarrow> Resource \<Rightarrow> string \<Rightarrow> string \<Rightarrow> Request \<Rightarrow> run" where
  "handleResourceFunc s res namespace name r =
     (if Method r \<noteq> ''GET'' then ([HttpError ''only GET'' 405], Returned)
      else
        (case KindFor s (fst (CreateNew res)) of
           Inl err \<Rightarrow> ([HttpError (''failed to find kind: '' @ err) 500], Returned)
         | Inr newKind \<Rightarrow>
             (case KindFor s (fst (CreateNewList res)) of
                Inl err \<Rightarrow> ([HttpError (''failed to find list kind: '' @ err) 500], Returned)
              | Inr newKindList \<Rightarrow>
                  if EqualFold (query_get (Query r) ''watch'') ''true'' then
                    handle_watch s res (fst (CreateNew res)) newKind namespace name r
                  else handle_get_list s res newKind newKindList namespace name r)))"

section \<open>NewServer\<close>

record APIResource =
  Name :: string
  Namespaced :: bool
  Kind :: string
  Verbs :: "string list"

type_synonym CustomResourceHandlerFunc = "string \<Rightarrow> string \<Rightarrow> Request \<Rightarrow> run"

record CustomResource =
  CreateHandler :: "CustomResourceHandlerFunc option"
  GetHandler :: "CustomResourceHandlerFunc option"
  ListHandler :: "CustomResourceHandlerFunc option"
  ReplaceHandler :: "CustomResourceHandlerFunc option"
  DeleteHandler :: "CustomResourceHandlerFunc option"
  WatchHandler :: "CustomResourceHandlerFunc option"

text \<open>
  \<^verbatim>\<open>RawEndpoints\<close> is a Go map; the builder ranges over it in an order the runtime picks.
  The list holds its entries in the order of that iteration; a nil function is \<open>None\<close>.
\<close>

record APIKind =
  ApiResource :: APIResource
  RawEndpoints :: "(string \<times> (Request \<Rightarrow> run) option) list"
  Resources :: "Resource list"
  CustomResources :: "CustomResource list"

record ServerConfig =
  Port :: string
  CertFile :: string
  KeyFile :: string
  Group :: string
  Version :: string
  APIKinds :: "APIKind list"

text \<open>The closures stored in \<^verbatim>\<open>resourceHandlersNamespaced\<close>, by what they capture.\<close>

datatype ns_handler = ResourceNamespaced Resource | CustomNamespaced CustomResource

text \<open>The closures registered on the multiplexer, by what they capture.\<close>

datatype route =
    Healthz
  | Readyz
  | ApiGroupList string string
  | RawEndpoint "(Request \<Rightarrow> run) option"
  | ResourceCollection Resource
  | ResourceItem Resource
  | CustomCollection CustomResource
  | CustomItem CustomResource
  | ApiResourceList "APIResource list"
  | NamespacesDispatch "(string \<times> ns_handler) list"

fun nil_handler :: "route \<Rightarrow> bool" where
  "nil_handler (RawEndpoint None) = True"
| "nil_handler h = False"

type_synonym ServeMux = "(string \<times> route) list"

text \<open>
  The builder ends in one of two panics: its own, with the message it passes to
  \<^verbatim>\<open>panic\<close>, or the one \<^verbatim>\<open>http.ServeMux.HandleFunc\<close> raises for the pattern it refuses.
\<close>

datatype panic = PanicMsg string | MuxRegisterPanic string

text \<open>
  \<^verbatim>\<open>http.ServeMux.HandleFunc\<close> panics on an empty pattern, on a nil handler, on a pattern
  that does not parse, and on a pattern that conflicts with a registered one. A pattern
  always conflicts with itself. Which strings do not parse and which further pairs of
  patterns conflict is decided by net/http and is a parameter here.
\<close>

record MuxRules =
  invalid_pattern :: "string \<Rightarrow> bool"
  conflicts :: "string \<Rightarrow> string \<Rightarrow> bool"

definition HandleFunc :: "MuxRules \<Rightarrow> string \<Rightarrow> route \<Rightarrow> ServeMux \<Rightarrow> panic + ServeMux" where
  "HandleFunc R pattern handler m =
     (if pattern = [] \<or> nil_handler handler \<or> invalid_pattern R pattern
         \<or> list_ex (\<lambda>e. fst e = pattern \<or> conflicts R (fst e) pattern) m
      then Inl (MuxRegisterPanic pattern)
      else Inr (m @ [(pattern, handler)]))"

record builder =
  srv_mux :: ServeMux
  apiResources :: "APIResource list"
  existingApiResources :: "string \<rightharpoonup> bool"
  resourceHandlersNamespaced :: "(string \<times> ns_handler) list"

definition resource_path :: "string \<Rightarrow> string \<Rightarrow> string \<Rightarrow> string" where
  "resource_path g v n = ''/apis/'' @ g @ ''/'' @ v @ ''/'' @ n"

text \<open>Lines 137 to 139.\<close>

fun register_raw ::
  "MuxRules \<Rightarrow> string \<Rightarrow> (string \<times> (Request \<Rightarrow> run) option) list \<Rightarrow> ServeMux
     \<Rightarrow> panic + ServeMux" where
  "register_raw R base [] m = Inr m"
| "register_raw R base ((ep, fn) # eps) m =
     (case HandleFunc R (base @ ep) (RawEndpoint fn) m of
        Inl p \<Rightarrow> Inl p
      | Inr m' \<Rightarrow> register_raw R base eps m')"

text \<open>Lines 141 to 190.\<close>

fun register_resources ::
  "MuxRules \<Rightarrow> string \<Rightarrow> APIResource \<Rightarrow> Resource list
     \<Rightarrow> ServeMux \<times> (string \<times> ns_handler) list
     \<Rightarrow> panic + ServeMux \<times> (string \<times> ns_handler) list" where
  "register_resources R base ar [] st = Inr st"
| "register_resources R base ar (res # rest) (m, ns) =
     (case HandleFunc R base (ResourceCollection res) m of
        Inl p \<Rightarrow> Inl p
      | Inr m1 \<Rightarrow>
          if \<not> Namespaced ar then
            (case HandleFunc R (base @ ''/'') (ResourceItem res) m1 of
               Inl p \<Rightarrow> Inl p
             | Inr m2 \<Rightarrow> register_resources R base ar rest (m2, ns))
          else
            register_resources R base ar rest
              (m1, AList.update (Name ar) (ResourceNamespaced res) ns))"

text \<open>Lines 192 to 269.\<close>

fun register_custom ::
  "MuxRules \<Rightarrow> string \<Rightarrow> APIResource \<Rightarrow> CustomResource list
     \<Rightarrow> ServeMux \<times> (string \<times> ns_handler) list
     \<Rightarrow> panic + ServeMux \<times> (string \<times> ns_handler) list" where
  "register_custom R base ar [] st = Inr st"
| "register_custom R base ar (res # rest) (m, ns) =
     (case HandleFunc R base (CustomCollection res) m of
        Inl p \<Rightarrow> Inl p
      | Inr m1 \<Rightarrow>
          if \<not> Namespaced ar then
            (case HandleFunc R (base @ ''/'') (CustomItem res) m1 of
               Inl p \<Rightarrow> Inl p
             | Inr m2 \<Rightarrow> register_custom R base ar rest (m2, ns))
          else
            register_custom R base ar rest
              (m1, AList.update (Name ar) (CustomNamespaced res) ns))"

text \<open>One iteration of the loop over \<^verbatim>\<open>config.APIKinds\<close>, lines 128 to 269.\<close>

definition register_kind ::
  "MuxRules \<Rightarrow> string \<Rightarrow> string \<Rightarrow> APIKind \<Rightarrow> builder \<Rightarrow> panic + builder" where
  "register_kind R g v ak b =
     (let ar = ApiResource ak; base = resource_path g v (Name ar)
      in if existingApiResources b (Name ar) \<noteq> None then
           Inl (PanicMsg (''APIResource must be unique: '' @ Name ar))
         else
           (case register_raw R base (RawEndpoints ak) (srv_mux b) of
              Inl p \<Rightarrow> Inl p
            | Inr m1 \<Rightarrow>
                (case register_resources R base ar (Resources ak)
                        (m1, resourceHandlersNamespaced b) of
                   Inl p \<Rightarrow> Inl p
                 | Inr st2 \<Rightarrow>
                     (case register_custom R base ar (CustomResources ak) st2 of
                        Inl p \<Rightarrow> Inl p
                      | Inr (m3, ns3) \<Rightarrow>
                          Inr \<lparr>srv_mux = m3,
                               apiResources = apiResources b @ [ar],
                               existingApiResources =
                                 (existingApiResources b)(Name ar \<mapsto> True),
                               resourceHandlersNamespaced = ns3\<rparr>))))"

fun register_kinds ::
  "MuxRules \<Rightarrow> string \<Rightarrow> string \<Rightarrow> APIKind list \<Rightarrow> builder \<Rightarrow> panic + builder" where
  "register_kinds R g v [] b = Inr b"
| "register_kinds R g v (ak # aks) b =
     (case register_kind R g v ak b of
        Inl p \<Rightarrow> Inl p
      | Inr b' \<Rightarrow> register_kinds R g v aks b')"

text \<open>Lines 91 to 126: the three fixed routes and the empty tables.\<close>

definition initial_routes :: "MuxRules \<Rightarrow> ServerConfig \<Rightarrow> panic + builder" where
  "initial_routes R config =
     (case HandleFunc R ''/healthz'' Healthz [] of
        Inl p \<Rightarrow> Inl p
      | Inr m1 \<Rightarrow>
          (case HandleFunc R ''/readyz'' Readyz m1 of
             Inl p \<Rightarrow> Inl p
           | Inr m2 \<Rightarrow>
               (case HandleFunc R ''/apis'' (ApiGroupList (Group config) (Version config)) m2 of
                  Inl p \<Rightarrow> Inl p
                | Inr m3 \<Rightarrow>
                    Inr \<lparr>srv_mux = m3, apiResources = [],
                         existingApiResources = Map.empty,
                         resourceHandlersNamespaced = []\<rparr>)))"

text \<open>Lines 272 to 302: the discovery route and the namespaces dispatcher.\<close>

definition final_routes :: "MuxRules \<Rightarrow> ServerConfig \<Rightarrow> builder \<Rightarrow> panic + ServeMux" where
  "final_routes R config b =
     (case HandleFunc R (''/apis/'' @ Group config @ ''/'' @ Version config)
             (ApiResourceList (apiResources b)) (srv_mux b) of
        Inl p \<Rightarrow> Inl p
      | Inr m1 \<Rightarrow>
          if length (resourceHandlersNamespaced b) \<noteq> 0 then
            HandleFunc R (''/apis/'' @ Group config @ ''/'' @ Version config @ ''/namespaces/'')
              (NamespacesDispatch (resourceHandlersNamespaced b)) m1
          else Inr m1)"

text \<open>
  The built server. Its two clients are copied from the configuration unchanged; they are
  the \<open>Env\<close> the handler is run with.
\<close>

record Server =
  port :: string
  certFile :: string
  keyFile :: string
  mux :: ServeMux

definition NewServer :: "MuxRules \<Rightarrow> ServerConfig \<Rightarrow> panic + Server" where
  "NewServer R config =
     (case initial_routes R config of
        Inl p \<Rightarrow> Inl p
      | Inr b0 \<Rightarrow>
          (case register_kinds R (Group config) (Version config) (APIKinds config) b0 of
             Inl p \<Rightarrow> Inl p
           | Inr b \<Rightarrow>
               (case final_routes R config b of
                  Inl p \<Rightarrow> Inl p
                | Inr m \<Rightarrow>
                    Inr \<lparr>port = Port config, certFile = CertFile config,
                         keyFile = KeyFile config, mux = m\<rparr>)))"

section \<open>Reading a multiplexer and a run\<close>

text \<open>The patterns registered on a multiplexer, and the panics it raises.\<close>

definition patterns :: "ServeMux \<Rightarrow> string set" where
  "patterns m = fst ` set m"

fun is_mux_panic :: "panic \<Rightarrow> bool" where
  "is_mux_panic (MuxRegisterPanic p) = True"
| "is_mux_panic (PanicMsg m) = False"

text \<open>The operations of the backing store among the effects of a run.\<close>

fun is_backing_call :: "effect \<Rightarrow> bool" where
  "is_backing_call (CallGet namespace name) = True"
| "is_backing_call (CallList opts) = True"
| "is_backing_call (CallWatch g namespace opts) = True"
| "is_backing_call e = False"

definition backing_calls :: "run \<Rightarrow> effect list" where
  "backing_calls r = filter is_backing_call (fst r)"

text \<open>The query without any value for a key, as if the client had not sent the parameter.\<close>

definition without :: "string \<Rightarrow> query \<Rightarrow> query" where
  "without k q = filter (\<lambda>kv. fst kv \<noteq> k) q"

text \<open>The limits of the List calls of a run, in order.\<close>

fun limit_of :: "effect \<Rightarrow> int list" where
  "limit_of (CallList opts) = [Limit opts]"
| "limit_of e = []"

definition list_limits :: "run \<Rightarrow> int list" where
  "list_limits r = concat (map limit_of (fst r))"

text \<open>How often the run has stopped the watcher.\<close>

definition stops :: "run \<Rightarrow> nat" where
  "stops r = length (filter (\<lambda>e. e = WatcherStop) (fst r))"

section \<open>A sample deployment\<close>

text \<open>
  One resource \<open>widgets\<close> of group \<open>example.com\<close>, version \<open>v1\<close>, without hooks, in front
  of a backing store whose answers are given; every selector parses and every value
  encodes. The theorems below are exercised on it.
\<close>

definition ex_item :: obj where
  "ex_item = \<lparr>obj_gvk = ([], [], []), obj_rv = ''7'', obj_body = ''bar''\<rparr>"

definition ex_resource :: Resource where
  "ex_resource =
     \<lparr>CreateNew = ((''example.com'', ''v1'', ''widgets''),
                   \<lparr>obj_gvk = ([], [], []), obj_rv = [], obj_body = []\<rparr>),
      CreateNewList = ((''example.com'', ''v1'', ''widgetlist''),
                       \<lparr>list_gvk = ([], [], []), list_rv = [], list_items = []\<rparr>),
      ListCallback = None,
      WatchCallback = None\<rparr>"

definition ex_kindFor :: "gvr \<Rightarrow> string + gvk" where
  "ex_kindFor g =
     (if snd (snd g) = ''widgets'' then Inr (fst g, fst (snd g), ''Widget'')
      else if snd (snd g) = ''widgetlist'' then Inr (fst g, fst (snd g), ''WidgetList'')
      else Inl ''no matches for resource'')"

definition ex_env :: "(backing_error + obj) \<Rightarrow> (backing_error + obj_list) \<Rightarrow> Env" where
  "ex_env get_result list_result =
     \<lparr>KindFor = ex_kindFor,
      KubeClient_Get = (\<lambda>namespace name item. get_result),
      KubeClient_List = (\<lambda>items opts. list_result),
      Dynamic_Watch = (\<lambda>g namespace opts. None),
      labels_Parse = (\<lambda>x. Inr (Selector x)),
      fields_ParseSelector = (\<lambda>x. Inr (Selector x)),
      Encode_err = (\<lambda>d. None)\<rparr>"

definition ex_request :: "query \<Rightarrow> select list \<Rightarrow> Request" where
  "ex_request q sel = \<lparr>Method = ''GET'', Query = q, Flusher = True, Selects = sel\<rparr>"

definition ex_items :: obj_list where
  "ex_items = \<lparr>list_gvk = ([], [], []), list_rv = ''9'', list_items = [ex_item]\<rparr>"

definition ex_listOpts :: client_ListOptions where
  "ex_listOpts =
     \<lparr>Namespace = [], Limit = 500, Continue = [],
      LabelSelector_parsed = None, FieldSelector_parsed = None,
      Raw = metav1_ListOptions_zero\<lparr>ResourceVersionMatch := Some NotOlderThan\<rparr>\<rparr>"

definition ex_list_response :: "effect list" where
  "ex_list_response =
     [SetContentType json_content_type,
      Encode (EncAny (AnyList
        \<lparr>list_gvk = (''example.com'', ''v1'', ''WidgetList''), list_rv = ''9'',
         list_items = [ex_item\<lparr>obj_gvk := (''example.com'', ''v1'', ''Widget'')\<rparr>]\<rparr>))]"

text \<open>A resource whose kind the REST mapper of the sample does not know.\<close>

definition ex_unmapped :: Resource where
  "ex_unmapped =
     ex_resource\<lparr>CreateNew := ((''example.com'', ''v1'', ''gadgets''),
                                \<lparr>obj_gvk = ([], [], []), obj_rv = [], obj_body = []\<rparr>)\<rparr>"

text \<open>Three events of the sample watch.\<close>

definition ex_error_event :: Event where
  "ex_error_event = \<lparr>Type = Error, Object = Status 500 ''boom''\<rparr>"

definition ex_bookmark :: Event where
  "ex_bookmark = \<lparr>Type = Bookmark, Object = Unstructured ex_item\<rparr>"

definition ex_added :: Event where
  "ex_added = \<lparr>Type = Added, Object = Unstructured ex_item\<rparr>"

text \<open>A list-transform hook that filters every item out of the list it is given.\<close>

definition ex_filter_all :: "string \<Rightarrow> string \<Rightarrow> obj_list \<Rightarrow> string + any_val" where
  "ex_filter_all namespace name items = Inr (AnyList (items\<lparr>list_items := []\<rparr>))"

text \<open>
  The sample server: multiplexer rules under which only identical patterns conflict, a
  cluster-scoped kind \<open>widgets\<close> and a namespaced kind \<open>gadgets\<close>, each with the one
  structured resource of the sample.
\<close>

definition ex_rules :: MuxRules where
  "ex_rules = \<lparr>invalid_pattern = (\<lambda>p. False), conflicts = (\<lambda>a b. False)\<rparr>"

definition ex_widgets :: APIKind where
  "ex_widgets =
     \<lparr>ApiResource = \<lparr>Name = ''widgets'', Namespaced = False, Kind = ''Widget'',
                      Verbs = [''get'', ''list'', ''watch'']\<rparr>,
      RawEndpoints = [], Resources = [ex_resource], CustomResources = []\<rparr>"

definition ex_gadgets :: APIKind where
  "ex_gadgets =
     \<lparr>ApiResource = \<lparr>Name = ''gadgets'', Namespaced = True, Kind = ''Gadget'',
                      Verbs = [''get'', ''list'', ''watch'']\<rparr>,
      RawEndpoints = [], Resources = [ex_resource], CustomResources = []\<rparr>"

text \<open>The kind \<open>widgets\<close> with two entries in \<^verbatim>\<open>Resources\<close>.\<close>

definition ex_widgets_twice :: APIKind where
  "ex_widgets_twice = ex_widgets\<lparr>Resources := [ex_resource, ex_resource]\<rparr>"

definition ex_config :: "APIKind list \<Rightarrow> ServerConfig" where
  "ex_config kinds =
     \<lparr>Port = '':8443'', CertFile = ''tls.crt'', KeyFile = ''tls.key'',
      Group = ''example.com'', Version = ''v1'', APIKinds = kinds\<rparr>"

section \<open>Facts about the query parameters\<close>

lemma query_get_without: "k' \<noteq> k \<Longrightarrow> query_get (without k q) k' = query_get q k'"
  unfolding query_get_def without_def
  by (induction q) auto

lemma query_get_without_same: "query_get (without k q) k = []"
  unfolding query_get_def without_def
  by (induction q) auto

lemma limit_range: "1 \<le> limit q \<and> limit q \<le> 1000"
  by (simp add: limit_def Let_def split: option.splits)

lemma limit_without: "limit (without ''limit'' q) = 500"
  by (simp add: limit_def query_get_without_same)

lemma ParseInt_5000: "ParseInt ''5000'' = Some 5000"
  by (simp add: ParseInt_def ParseUint_def is_digit_def digit_val_def)

lemma ParseInt_abc: "ParseInt ''abc'' = None"
  by (simp add: ParseInt_def ParseUint_def is_digit_def)

section \<open>Which backing operations a request reaches\<close>

lemma backing_calls_emit:
  "backing_calls (emit es r) = filter is_backing_call es @ backing_calls r"
  by (simp add: backing_calls_def emit_def)

lemma on_event_no_call:
  "on_event s res k ns name allow ev = Return es \<or> on_event s res k ns name allow ev = Next es
     \<Longrightarrow> filter is_backing_call es = []"
  unfolding on_event_def
  by (auto split: if_splits runtime_object.splits option.splits sum.splits)

lemma backing_calls_watch_loop:
  "backing_calls (watch_loop s res k ns name allow sel) = []"
proof (induction sel)
  case Nil
  show ?case by (simp add: backing_calls_def)
next
  case (Cons x sel)
  show ?case
  proof (cases x)
    case CtxDone
    then show ?thesis by (simp add: backing_calls_def)
  next
    case ChanClosed
    then show ?thesis by (simp add: backing_calls_def)
  next
    case (Recv ev)
    show ?thesis
    proof (cases "on_event s res k ns name allow ev")
      case (Return es)
      with on_event_no_call[of s res k ns name allow ev es] Recv show ?thesis
        by (simp add: backing_calls_def)
    next
      case (Next es)
      with on_event_no_call[of s res k ns name allow ev es] Recv Cons.IH show ?thesis
        by (simp add: backing_calls_emit)
    qed
  qed
qed

lemma backing_calls_encode_response: "backing_calls (encode_response s v) = []"
  by (simp add: backing_calls_def encode_response_def split: option.splits)

lemma backing_calls_respond:
  "backing_calls (respond s res k kl ns name items) = []"
  unfolding respond_def backing_calls_emit
  by (simp add: Let_def backing_calls_encode_response split: option.splits sum.splits)
     (simp add: backing_calls_def)

lemma backing_calls_handle_watch:
  "backing_calls (handle_watch s res g k ns name r) =
     (if \<not> Flusher r \<or> (sendInitial (Query r) \<and> rvm (Query r) \<noteq> NotOlderThan) then []
      else [CallWatch g ns (watch_listOpts (Query r) name)])"
  unfolding handle_watch_def
  by (simp add: Let_def backing_calls_emit backing_calls_watch_loop split: option.splits)
     (simp add: backing_calls_def)

lemma backing_calls_handle_get_list:
  "backing_calls (handle_get_list s res k kl ns name r) =
     (if name \<noteq> [] then [CallGet ns name]
      else (case list_listOpts s ns (Query r) of Inl e \<Rightarrow> [] | Inr opts \<Rightarrow> [CallList opts]))"
  unfolding handle_get_list_def
  apply (simp add: Let_def backing_calls_emit backing_calls_respond split: option.splits sum.splits)
  apply (auto simp: backing_calls_def list_listOpts_def Let_def split: sum.splits if_splits)
  done

text \<open>
  A request makes at most one call to the backing store, and which one is decided by the
  checks that precede it.
\<close>

lemma backing_calls_handleResourceFunc:
  "backing_calls (handleResourceFunc s res ns name r) =
     (if Method r \<noteq> ''GET'' then []
      else case KindFor s (fst (CreateNew res)) of
        Inl err \<Rightarrow> []
      | Inr newKind \<Rightarrow>
          (case KindFor s (fst (CreateNewList res)) of
             Inl err \<Rightarrow> []
           | Inr newKindList \<Rightarrow>
               if EqualFold (query_get (Query r) ''watch'') ''true'' then
                 (if \<not> Flusher r \<or> (sendInitial (Query r) \<and> rvm (Query r) \<noteq> NotOlderThan)
                  then []
                  else [CallWatch (fst (CreateNew res)) ns (watch_listOpts (Query r) name)])
               else if name \<noteq> [] then [CallGet ns name]
               else (case list_listOpts s ns (Query r) of
                       Inl e \<Rightarrow> []
                     | Inr opts \<Rightarrow> [CallList opts])))"
  unfolding handleResourceFunc_def
  by (simp add: backing_calls_handle_watch backing_calls_handle_get_list split: sum.splits)
     (simp add: backing_calls_def)

lemma CallList_limit:
  assumes "CallList opts \<in> set (backing_calls (handleResourceFunc s res ns name r))"
  shows "Limit opts = limit (Query r)"
  using assms unfolding backing_calls_handleResourceFunc
  by (auto simp: list_listOpts_def Let_def split: if_splits sum.splits)

section \<open>The sample deployment at work\<close>

lemmas sample_defs =
  ex_env_def ex_resource_def ex_request_def ex_kindFor_def ex_items_def ex_item_def
  EqualFold_def to_lower_def query_get_def metav1_ListOptions_zero_def
  json_content_type_def stream_content_type_def

lemmas handler_defs =
  handleResourceFunc_def handle_get_list_def handle_watch_def list_listOpts_def
  watch_listOpts_def limit_def rvm_def sendInitial_def timeoutSec_def allowBookmarks_def
  fs_def respond_def encode_response_def unwrap_def emit_def on_event_def

lemma ex_list_5000:
  "handleResourceFunc (ex_env (Inr ex_item) (Inr ex_items)) ex_resource [] []
     (ex_request [(''limit'', ''5000'')] []) =
   (CallList ex_listOpts # ex_list_response, Returned)"
  by (simp add: sample_defs handler_defs ex_listOpts_def ex_list_response_def ParseInt_5000)

lemma ex_list_abc:
  "handleResourceFunc (ex_env (Inr ex_item) (Inr ex_items)) ex_resource [] []
     (ex_request [(''limit'', ''abc'')] []) =
   (CallList ex_listOpts # ex_list_response, Returned)"
  by (simp add: sample_defs handler_defs ex_listOpts_def ex_list_response_def ParseInt_abc)

section \<open>The limit of a list request\<close>

text \<open>
  C3, as the code has it. A List request with \<open>limit=5000\<close> reaches the backing store with
  the default limit 500: a value above 1000 is replaced by the default, it is not clamped
  to 1000. Whatever the query, the limit of a List call lies between 1 and 1000.
\<close>

theorem limit_5000_is_default:
  assumes "CallList opts \<in> set (backing_calls (handleResourceFunc s res ns name r))"
  shows "1 \<le> Limit opts \<and> Limit opts \<le> 1000
         \<and> (query_get (Query r) ''limit'' = ''5000'' \<longrightarrow> Limit opts = 500)"
  using CallList_limit[OF assms] limit_range[of "Query r"]
  by (simp add: limit_def ParseInt_5000)

text \<open>The sample list request with \<open>limit=5000\<close> makes its List call with limit 500.\<close>

theorem limit_5000_is_default_witness:
  "CallList ex_listOpts \<in> set (backing_calls
      (handleResourceFunc (ex_env (Inr ex_item) (Inr ex_items)) ex_resource [] []
         (ex_request [(''limit'', ''5000'')] [])))
   \<and> query_get (Query (ex_request [(''limit'', ''5000'')] [])) ''limit'' = ''5000''
   \<and> Limit ex_listOpts = 500"
proof -
  have h: "CallList ex_listOpts \<in> set (backing_calls
      (handleResourceFunc (ex_env (Inr ex_item) (Inr ex_items)) ex_resource [] []
         (ex_request [(''limit'', ''5000'')] [])))"
    by (simp add: ex_list_5000 backing_calls_def)
  have q: "query_get (Query (ex_request [(''limit'', ''5000'')] [])) ''limit'' = ''5000''"
    by (simp add: ex_request_def query_get_def)
  from limit_5000_is_default[OF h] q h show ?thesis by simp
qed

text \<open>
  C3 as the specification states it fails: for \<open>GET /apis/example.com/v1/widgets?limit=5000\<close>
  the one List call of the run carries the limit 500, not 1000.
\<close>

theorem limit_5000_not_clamped:
  "list_limits (handleResourceFunc (ex_env (Inr ex_item) (Inr ex_items)) ex_resource [] []
      (ex_request [(''limit'', ''5000'')] [])) = [500]
   \<and> list_limits (handleResourceFunc (ex_env (Inr ex_item) (Inr ex_items)) ex_resource [] []
      (ex_request [(''limit'', ''5000'')] [])) \<noteq> [1000]"
  by (simp add: ex_list_5000 list_limits_def ex_list_response_def ex_listOpts_def)

text \<open>Dropping the \<open>limit\<close> parameter changes nothing when the limit in force is the default.\<close>

lemma watch_listOpts_without_limit:
  "watch_listOpts (without ''limit'' q) name = watch_listOpts q name"
  by (simp add: watch_listOpts_def rvm_def timeoutSec_def sendInitial_def allowBookmarks_def
      fs_def query_get_without)

lemma list_listOpts_without_limit:
  "limit q = 500 \<Longrightarrow> list_listOpts s ns (without ''limit'' q) = list_listOpts s ns q"
  by (simp add: list_listOpts_def rvm_def query_get_without limit_without
      cong: sum.case_cong)

lemma handle_watch_without_limit:
  "handle_watch s res g k ns name (r\<lparr>Query := without ''limit'' (Query r)\<rparr>) =
   handle_watch s res g k ns name r"
  by (simp add: handle_watch_def watch_listOpts_without_limit sendInitial_def rvm_def
      allowBookmarks_def query_get_without cong: if_cong option.case_cong)

lemma handle_get_list_without_limit:
  "limit (Query r) = 500 \<Longrightarrow>
   handle_get_list s res k kl ns name (r\<lparr>Query := without ''limit'' (Query r)\<rparr>) =
   handle_get_list s res k kl ns name r"
  by (simp add: handle_get_list_def list_listOpts_without_limit
      cong: if_cong sum.case_cong)

lemma handleResourceFunc_without_limit:
  "limit (Query r) = 500 \<Longrightarrow>
   handleResourceFunc s res ns name (r\<lparr>Query := without ''limit'' (Query r)\<rparr>) =
   handleResourceFunc s res ns name r"
  by (simp add: handleResourceFunc_def handle_watch_without_limit
      handle_get_list_without_limit query_get_without cong: if_cong sum.case_cong)

text \<open>
  C4. When the \<open>limit\<close> parameter is absent, does not parse as an integer, is not
  positive, or exceeds 1000, every List call of the request carries the default limit 500;
  and the parameter is ignored: the whole run, response included, is the run of the same
  request without the parameter, so the value causes no error response of its own.
\<close>

theorem bad_limit_is_ignored:
  assumes "query_get (Query r) ''limit'' = []
           \<or> ParseInt (query_get (Query r) ''limit'') = None
           \<or> (\<exists>l. ParseInt (query_get (Query r) ''limit'') = Some l \<and> (l \<le> 0 \<or> 1000 < l))"
  shows "(\<forall>opts. CallList opts \<in> set (backing_calls (handleResourceFunc s res ns name r))
            \<longrightarrow> Limit opts = 500)
         \<and> handleResourceFunc s res ns name r =
           handleResourceFunc s res ns name (r\<lparr>Query := without ''limit'' (Query r)\<rparr>)"
proof -
  from assms have d: "limit (Query r) = 500"
    by (auto simp: limit_def Let_def)
  show ?thesis
    using d CallList_limit[of _ s res ns name r] handleResourceFunc_without_limit[OF d]
    by auto
qed

text \<open>
  The sample list request with \<open>limit=abc\<close>: the List call is made with limit 500 and the
  run is that of the request without a limit.
\<close>

theorem bad_limit_is_ignored_witness:
  "ParseInt (query_get (Query (ex_request [(''limit'', ''abc'')] [])) ''limit'') = None
   \<and> list_limits (handleResourceFunc (ex_env (Inr ex_item) (Inr ex_items)) ex_resource [] []
        (ex_request [(''limit'', ''abc'')] [])) = [500]
   \<and> handleResourceFunc (ex_env (Inr ex_item) (Inr ex_items)) ex_resource [] []
        (ex_request [(''limit'', ''abc'')] []) =
     handleResourceFunc (ex_env (Inr ex_item) (Inr ex_items)) ex_resource [] []
        (ex_request [] [])"
proof -
  have p: "ParseInt (query_get (Query (ex_request [(''limit'', ''abc'')] [])) ''limit'') = None"
    by (simp add: ex_request_def query_get_def ParseInt_abc)
  have w: "(ex_request [(''limit'', ''abc'')] [])
             \<lparr>Query := without ''limit'' (Query (ex_request [(''limit'', ''abc'')] []))\<rparr>
           = ex_request [] []"
    by (simp add: ex_request_def without_def)
  have l: "list_limits (handleResourceFunc (ex_env (Inr ex_item) (Inr ex_items)) ex_resource
        [] [] (ex_request [(''limit'', ''abc'')] [])) = [500]"
    by (simp add: ex_list_abc list_limits_def ex_list_response_def ex_listOpts_def)
  from bad_limit_is_ignored[of "ex_request [(''limit'', ''abc'')] []"
      "ex_env (Inr ex_item) (Inr ex_items)" ex_resource "[]" "[]"] p w l
  show ?thesis by simp
qed

section \<open>Errors of the single-object path\<close>

text \<open>
  C2, as the code has it. For a GET request with a path name and without \<open>watch=true\<close>
  whose kinds resolve, a failing backing Get is answered with 404 when the error is a
  NotFound error, and with 500 and the text \<open>failed to get task: \<close> followed by the
  backing error's message for every other error. A Gone status (code 410) is one of the
  other errors and is answered with 500, not 410: only the list and watch branches test
  for Gone.
\<close>

theorem get_error_responses:
  assumes "Method r = ''GET''"
    and "KindFor s (fst (CreateNew res)) = Inr k"
    and "KindFor s (fst (CreateNewList res)) = Inr kl"
    and "\<not> EqualFold (query_get (Query r) ''watch'') ''true''"
    and "name \<noteq> []"
    and "KubeClient_Get s ns name (snd (CreateNew res)) = Inl err"
  shows "handleResourceFunc s res ns name r =
           (case err of
              NotFoundErr m \<Rightarrow> ([CallGet ns name, HttpNotFound], Returned)
            | _ \<Rightarrow> ([CallGet ns name,
                      HttpError (''failed to get task: '' @ err_Error err) 500], Returned))"
  using assms
  by (cases err) (simp_all add: handleResourceFunc_def handle_get_list_def)

text \<open>The sample get of \<open>bar\<close> against a store that answers NotFound: 404.\<close>

theorem get_error_responses_witness:
  "Method (ex_request [] []) = ''GET''
   \<and> KindFor (ex_env (Inl (NotFoundErr ''widgets bar not found'')) (Inr ex_items))
        (fst (CreateNew ex_resource)) = Inr (''example.com'', ''v1'', ''Widget'')
   \<and> KindFor (ex_env (Inl (NotFoundErr ''widgets bar not found'')) (Inr ex_items))
        (fst (CreateNewList ex_resource)) = Inr (''example.com'', ''v1'', ''WidgetList'')
   \<and> \<not> EqualFold (query_get (Query (ex_request [] [])) ''watch'') ''true''
   \<and> ''bar'' \<noteq> []
   \<and> handleResourceFunc (ex_env (Inl (NotFoundErr ''widgets bar not found'')) (Inr ex_items))
        ex_resource [] ''bar'' (ex_request [] []) =
      ([CallGet [] ''bar'', HttpNotFound], Returned)"
proof -
  let ?s = "ex_env (Inl (NotFoundErr ''widgets bar not found'')) (Inr ex_items)"
  have a: "Method (ex_request [] []) = ''GET''"
    by (simp add: ex_request_def)
  have b: "KindFor ?s (fst (CreateNew ex_resource)) = Inr (''example.com'', ''v1'', ''Widget'')"
    by (simp add: sample_defs)
  have c: "KindFor ?s (fst (CreateNewList ex_resource))
             = Inr (''example.com'', ''v1'', ''WidgetList'')"
    by (simp add: sample_defs)
  have d: "\<not> EqualFold (query_get (Query (ex_request [] [])) ''watch'') ''true''"
    by (simp add: sample_defs)
  have e: "''bar'' \<noteq> []" by simp
  have f: "KubeClient_Get ?s [] ''bar'' (snd (CreateNew ex_resource))
             = Inl (NotFoundErr ''widgets bar not found'')"
    by (simp add: ex_env_def)
  from get_error_responses[OF a b c d e f] a b c d show ?thesis by simp
qed

text \<open>
  C2 as the specification states it fails: the sample get of \<open>bar\<close> against a store that
  answers with a Gone status (410) is answered with 500.
\<close>

theorem get_gone_is_500:
  "is_gone (StatusErr 410 ''too old resource version'')
   \<and> handleResourceFunc
       (ex_env (Inl (StatusErr 410 ''too old resource version'')) (Inr ex_items))
       ex_resource [] ''bar'' (ex_request [] []) =
     ([CallGet [] ''bar'', HttpError ''failed to get task: too old resource version'' 500],
      Returned)"
  by (simp add: sample_defs handler_defs)

section \<open>Validation of the watch options\<close>

text \<open>
  C6, as the code has it. A request with \<open>watch=true\<close> whose effective
  \<open>sendInitialEvents\<close> is true and whose \<open>resourceVersionMatch\<close> resolves to Exact never
  reaches the backing store: no Get, List or Watch is issued. It is answered with 400
  when it gets as far as the validation of the watch options, that is when the method is
  GET, both kinds resolve and the response writer can flush; each of these earlier checks
  answers with its own status (405 or 500) first.
\<close>

theorem sendInitial_Exact_rejected:
  assumes "EqualFold (query_get (Query r) ''watch'') ''true''"
    and "sendInitial (Query r)" and "rvm (Query r) = Exact"
  shows "backing_calls (handleResourceFunc s res ns name r) = []
         \<and> (Method r = ''GET'' \<and> KindFor s (fst (CreateNew res)) = Inr k
              \<and> KindFor s (fst (CreateNewList res)) = Inr kl \<and> Flusher r
            \<longrightarrow> handleResourceFunc s res ns name r =
                 ([SetContentType stream_content_type,
                   HttpError ''sendInitialEvents requires resourceVersionMatch=NotOlderThan'' 400],
                  Returned))"
  using assms unfolding backing_calls_handleResourceFunc
  by (simp add: handleResourceFunc_def handle_watch_def split: sum.splits)

lemma ex_exact_query:
  "EqualFold (query_get [(''watch'', ''true''), (''sendInitialEvents'', ''true''),
       (''resourceVersionMatch'', ''Exact'')] ''watch'') ''true''
   \<and> sendInitial [(''watch'', ''true''), (''sendInitialEvents'', ''true''),
       (''resourceVersionMatch'', ''Exact'')]
   \<and> rvm [(''watch'', ''true''), (''sendInitialEvents'', ''true''),
       (''resourceVersionMatch'', ''Exact'')] = Exact"
  by (simp add: sendInitial_def rvm_def EqualFold_def to_lower_def query_get_def)

text \<open>
  The sample watch with \<open>sendInitialEvents=true\<close> and \<open>resourceVersionMatch=Exact\<close>: 400,
  and the store is not reached.
\<close>

theorem sendInitial_Exact_rejected_witness:
  "EqualFold (query_get (Query (ex_request [(''watch'', ''true''),
       (''sendInitialEvents'', ''true''), (''resourceVersionMatch'', ''Exact'')] [])) ''watch'')
     ''true''
   \<and> sendInitial (Query (ex_request [(''watch'', ''true''),
       (''sendInitialEvents'', ''true''), (''resourceVersionMatch'', ''Exact'')] []))
   \<and> rvm (Query (ex_request [(''watch'', ''true''),
       (''sendInitialEvents'', ''true''), (''resourceVersionMatch'', ''Exact'')] [])) = Exact
   \<and> backing_calls (handleResourceFunc (ex_env (Inr ex_item) (Inr ex_items)) ex_resource
        [] [] (ex_request [(''watch'', ''true''), (''sendInitialEvents'', ''true''),
          (''resourceVersionMatch'', ''Exact'')] [])) = []
   \<and> handleResourceFunc (ex_env (Inr ex_item) (Inr ex_items)) ex_resource
        [] [] (ex_request [(''watch'', ''true''), (''sendInitialEvents'', ''true''),
          (''resourceVersionMatch'', ''Exact'')] []) =
      ([SetContentType stream_content_type,
        HttpError ''sendInitialEvents requires resourceVersionMatch=NotOlderThan'' 400],
       Returned)"
proof -
  let ?q = "[(''watch'', ''true''), (''sendInitialEvents'', ''true''),
            (''resourceVersionMatch'', ''Exact'')]"
  let ?s = "ex_env (Inr ex_item) (Inr ex_items)"
  have q: "Query (ex_request ?q []) = ?q" by (simp add: ex_request_def)
  have a: "EqualFold (query_get (Query (ex_request ?q [])) ''watch'') ''true''"
    and b: "sendInitial (Query (ex_request ?q []))"
    and c: "rvm (Query (ex_request ?q [])) = Exact"
    unfolding q using ex_exact_query by simp_all
  have g: "Method (ex_request ?q []) = ''GET'' \<and> Flusher (ex_request ?q [])"
    by (simp add: ex_request_def)
  have k: "KindFor ?s (fst (CreateNew ex_resource)) = Inr (''example.com'', ''v1'', ''Widget'')"
    by (simp add: sample_defs)
  have kl: "KindFor ?s (fst (CreateNewList ex_resource))
              = Inr (''example.com'', ''v1'', ''WidgetList'')"
    by (simp add: sample_defs)
  from sendInitial_Exact_rejected[OF a b c, of ?s ex_resource "[]" "[]"
      "(''example.com'', ''v1'', ''Widget'')" "(''example.com'', ''v1'', ''WidgetList'')"]
    a b c g k kl
  show ?thesis by (simp add: backing_calls_def)
qed

text \<open>
  C6 as the specification states it fails: the same request for a resource whose kind the
  REST mapper cannot resolve is answered with 500, not 400.
\<close>

theorem sendInitial_Exact_unmapped_is_500:
  "EqualFold (query_get [(''watch'', ''true''), (''sendInitialEvents'', ''true''),
       (''resourceVersionMatch'', ''Exact'')] ''watch'') ''true''
   \<and> sendInitial [(''watch'', ''true''), (''sendInitialEvents'', ''true''),
       (''resourceVersionMatch'', ''Exact'')]
   \<and> rvm [(''watch'', ''true''), (''sendInitialEvents'', ''true''),
       (''resourceVersionMatch'', ''Exact'')] = Exact
   \<and> handleResourceFunc (ex_env (Inr ex_item) (Inr ex_items)) ex_unmapped [] []
        (ex_request [(''watch'', ''true''), (''sendInitialEvents'', ''true''),
          (''resourceVersionMatch'', ''Exact'')] []) =
      ([HttpError ''failed to find kind: no matches for resource'' 500], Returned)"
  using ex_exact_query
  by (simp add: handleResourceFunc_def ex_env_def ex_unmapped_def ex_resource_def
      ex_request_def ex_kindFor_def)

section \<open>The field selector under a path name\<close>

lemma fs_without: "name \<noteq> [] \<Longrightarrow> fs (without ''fieldSelector'' q) name = fs q name"
  by (simp add: fs_def)

lemma watch_listOpts_without_fs:
  "name \<noteq> [] \<Longrightarrow> watch_listOpts (without ''fieldSelector'' q) name = watch_listOpts q name"
  by (simp add: watch_listOpts_def rvm_def timeoutSec_def sendInitial_def allowBookmarks_def
      fs_without query_get_without)

lemma handle_watch_without_fs:
  "name \<noteq> [] \<Longrightarrow>
   handle_watch s res g k ns name (r\<lparr>Query := without ''fieldSelector'' (Query r)\<rparr>) =
   handle_watch s res g k ns name r"
  by (simp add: handle_watch_def watch_listOpts_without_fs sendInitial_def rvm_def
      allowBookmarks_def query_get_without cong: if_cong option.case_cong)

lemma handle_get_list_without_fs:
  "name \<noteq> [] \<Longrightarrow>
   handle_get_list s res k kl ns name (r\<lparr>Query := without ''fieldSelector'' (Query r)\<rparr>) =
   handle_get_list s res k kl ns name r"
  by (simp add: handle_get_list_def)

lemma handleResourceFunc_without_fs:
  "name \<noteq> [] \<Longrightarrow>
   handleResourceFunc s res ns name (r\<lparr>Query := without ''fieldSelector'' (Query r)\<rparr>) =
   handleResourceFunc s res ns name r"
  by (simp add: handleResourceFunc_def handle_watch_without_fs
      handle_get_list_without_fs query_get_without cong: if_cong sum.case_cong)

text \<open>
  C7. With a non-empty path name, every operation the request issues against the backing
  store selects exactly that name: a watch is opened with the field selector
  \<open>metadata.name=<name>\<close>, and a request without \<open>watch=true\<close> is served by the Get keyed
  by namespace and name, which takes no selector. The \<open>fieldSelector\<close> parameter of the
  client is replaced, not combined: the whole run is the run of the same request without
  that parameter.
\<close>

theorem name_replaces_fieldSelector:
  assumes "name \<noteq> []"
  shows "(\<forall>c \<in> set (backing_calls (handleResourceFunc s res ns name r)).
            c = CallGet ns name
            \<or> (\<exists>g opts. c = CallWatch g ns opts
                  \<and> FieldSelector opts = ''metadata.name='' @ name))
         \<and> handleResourceFunc s res ns name r =
           handleResourceFunc s res ns name (r\<lparr>Query := without ''fieldSelector'' (Query r)\<rparr>)"
proof -
  have "\<forall>c \<in> set (backing_calls (handleResourceFunc s res ns name r)).
            c = CallGet ns name
            \<or> (\<exists>g opts. c = CallWatch g ns opts
                  \<and> FieldSelector opts = ''metadata.name='' @ name)"
    using assms unfolding backing_calls_handleResourceFunc
    by (simp add: watch_listOpts_def fs_def del: split_paired_Ex split_paired_All
        split: sum.splits)
  then show ?thesis
    using handleResourceFunc_without_fs[OF assms, of s res ns r] by simp
qed

lemma ex_watch_bar_calls:
  "backing_calls (handleResourceFunc (ex_env (Inr ex_item) (Inr ex_items)) ex_resource []
      ''bar'' (ex_request [(''watch'', ''true''), (''fieldSelector'', ''spec.x=y'')] [])) =
   [CallWatch (''example.com'', ''v1'', ''widgets'') []
      (watch_listOpts [(''watch'', ''true''), (''fieldSelector'', ''spec.x=y'')] ''bar'')]"
  unfolding backing_calls_handleResourceFunc
  by (simp add: sample_defs sendInitial_def rvm_def)

text \<open>
  The sample watch of \<open>bar\<close> with \<open>fieldSelector=spec.x=y\<close>: the watch is opened with
  \<open>metadata.name=bar\<close>, and the run is that of the request without the parameter.
\<close>

theorem name_replaces_fieldSelector_witness:
  "''bar'' \<noteq> []
   \<and> backing_calls (handleResourceFunc (ex_env (Inr ex_item) (Inr ex_items)) ex_resource []
        ''bar'' (ex_request [(''watch'', ''true''), (''fieldSelector'', ''spec.x=y'')] [])) =
     [CallWatch (''example.com'', ''v1'', ''widgets'') []
        (watch_listOpts [(''watch'', ''true''), (''fieldSelector'', ''spec.x=y'')] ''bar'')]
   \<and> FieldSelector (watch_listOpts [(''watch'', ''true''), (''fieldSelector'', ''spec.x=y'')]
        ''bar'') = ''metadata.name=bar''
   \<and> handleResourceFunc (ex_env (Inr ex_item) (Inr ex_items)) ex_resource []
        ''bar'' (ex_request [(''watch'', ''true''), (''fieldSelector'', ''spec.x=y'')] []) =
     handleResourceFunc (ex_env (Inr ex_item) (Inr ex_items)) ex_resource []
        ''bar'' (ex_request [(''watch'', ''true'')] [])"
proof -
  have n: "''bar'' \<noteq> []" by simp
  have w: "(ex_request [(''watch'', ''true''), (''fieldSelector'', ''spec.x=y'')] [])
             \<lparr>Query := without ''fieldSelector''
                (Query (ex_request [(''watch'', ''true''), (''fieldSelector'', ''spec.x=y'')] []))\<rparr>
           = ex_request [(''watch'', ''true'')] []"
    by (simp add: ex_request_def without_def)
  from name_replaces_fieldSelector[OF n, of "ex_env (Inr ex_item) (Inr ex_items)" ex_resource
      "[]" "ex_request [(''watch'', ''true''), (''fieldSelector'', ''spec.x=y'')] []"]
    w ex_watch_bar_calls
  show ?thesis by (simp add: watch_listOpts_def fs_def)
qed

section \<open>The streaming loop\<close>

text \<open>
  What one event contributes: nothing, one encoded value followed at once by a flush, or
  one error response that ends the stream. The watcher is never stopped here.
\<close>

lemma on_event_shape:
  "(\<exists>es. on_event s res k ns name allow ev = Next es
          \<and> (es = [] \<or> (\<exists>d. es = [Encode d, Flush])))
   \<or> (\<exists>m c. on_event s res k ns name allow ev = Return [HttpError m c])"
  unfolding on_event_def
  by (simp split: runtime_object.splits option.splits sum.splits)

lemma on_event_no_stop:
  "on_event s res k ns name allow ev = Return es \<or> on_event s res k ns name allow ev = Next es
     \<Longrightarrow> WatcherStop \<notin> set es"
  using on_event_shape[of s res k ns name allow ev] by auto

text \<open>A bookmark is dropped without output unless bookmarks are allowed.\<close>

lemma on_event_bookmark_dropped:
  "Type ev = Bookmark \<Longrightarrow> on_event s res k ns name False ev = Next []"
  by (simp add: on_event_def)

lemma on_event_bookmark_forwarded:
  "Type ev = Bookmark \<Longrightarrow> Encode_err s (EncEvent ev) = None \<Longrightarrow>
   on_event s res k ns name True ev = Next [Encode (EncEvent ev), Flush]"
  by (simp add: on_event_def)

text \<open>
  The loop stops the watcher at most once, as its last effect, and only when it returns
  because the request context is done.
\<close>

lemma watch_loop_stop_is_last:
  "WatcherStop \<in> set (fst (watch_loop s res k ns name allow sel)) \<Longrightarrow>
   \<exists>es. watch_loop s res k ns name allow sel = (es @ [WatcherStop], Returned)
        \<and> WatcherStop \<notin> set es"
proof (induction sel)
  case Nil
  then show ?case by simp
next
  case (Cons x sel)
  show ?case
  proof (cases x)
    case CtxDone
    then show ?thesis by simp
  next
    case ChanClosed
    with Cons.prems show ?thesis by simp
  next
    case (Recv ev)
    show ?thesis
    proof (cases "on_event s res k ns name allow ev")
      case (Return es)
      with on_event_no_stop[of s res k ns name allow ev es] Recv Cons.prems
      show ?thesis by simp
    next
      case (Next es)
      with on_event_no_stop[of s res k ns name allow ev es] Recv Cons.prems
      have "WatcherStop \<in> set (fst (watch_loop s res k ns name allow sel))"
        and n: "WatcherStop \<notin> set es"
        by (auto simp: emit_def)
      with Cons.IH obtain es' where
        "watch_loop s res k ns name allow sel = (es' @ [WatcherStop], Returned)"
        and "WatcherStop \<notin> set es'"
        by blast
      with Next Recv n
      have "watch_loop s res k ns name allow (x # sel) = ((es @ es') @ [WatcherStop], Returned)
            \<and> WatcherStop \<notin> set (es @ es')"
        by (simp add: emit_def)
      then show ?thesis by blast
    qed
  qed
qed

text \<open>
  Every other way out of the loop leaves the watcher running: the closed result channel,
  and each event on which the body returns (an Error event, a failed cast, a failing hook,
  a failing encoder).
\<close>

lemma watch_loop_closed_unstopped:
  "watch_loop s res k ns name allow (ChanClosed # rest) = ([], Returned)"
  by simp

lemma watch_loop_return_unstopped:
  assumes "on_event s res k ns name allow ev = Return es"
  shows "watch_loop s res k ns name allow (Recv ev # rest) = (es, Returned)
         \<and> WatcherStop \<notin> set es"
  using assms on_event_no_stop[of s res k ns name allow ev es] by simp

text \<open>The loop itself never panics.\<close>

lemma watch_loop_Blocked_or_Returned:
  "snd (watch_loop s res k ns name allow sel) \<in> {Blocked, Returned}"
proof (induction sel)
  case Nil
  then show ?case by simp
next
  case (Cons x sel)
  then show ?case
    by (cases x; cases "on_event s res k ns name allow (case x of Recv e \<Rightarrow> e)")
       (auto simp: emit_def)
qed

text \<open>
  C1 fails on the code: the session of the sample watch reaches the streaming loop, the
  backing store delivers an Error event, and the handler answers and returns without ever
  stopping the watcher. The same holds when the result channel is closed. Only the branch
  for the cancelled request context calls \<^verbatim>\<open>watcher.Stop()\<close>.
\<close>

theorem watch_error_event_never_stops_watcher:
  "handleResourceFunc (ex_env (Inr ex_item) (Inr ex_items)) ex_resource [] []
     (ex_request [(''watch'', ''true'')] [Recv ex_error_event]) =
   ([SetContentType stream_content_type,
     CallWatch (''example.com'', ''v1'', ''widgets'') []
       (watch_listOpts [(''watch'', ''true'')] []),
     HttpError ''watch error: boom'' 500], Returned)
   \<and> stops (handleResourceFunc (ex_env (Inr ex_item) (Inr ex_items)) ex_resource [] []
        (ex_request [(''watch'', ''true'')] [Recv ex_error_event])) = 0
   \<and> stops (handleResourceFunc (ex_env (Inr ex_item) (Inr ex_items)) ex_resource [] []
        (ex_request [(''watch'', ''true'')] [ChanClosed])) = 0
   \<and> snd (handleResourceFunc (ex_env (Inr ex_item) (Inr ex_items)) ex_resource [] []
        (ex_request [(''watch'', ''true'')] [ChanClosed])) = Returned
   \<and> stops (handleResourceFunc (ex_env (Inr ex_item) (Inr ex_items)) ex_resource [] []
        (ex_request [(''watch'', ''true'')] [CtxDone])) = 1"
  by (simp add: sample_defs handler_defs ex_error_event_def stops_def)

text \<open>
  C5 fails on the code for bookmarks: with \<open>allowWatchBookmarks=true\<close> the sample watch
  forwards a Bookmark event by encoding the backing \<^verbatim>\<open>watch.Event\<close> itself, whose JSON
  keys are \<open>Type\<close> and \<open>Object\<close>, while an Added event is written as a \<^verbatim>\<open>watchEvent\<close>
  with the keys \<open>type\<close> and \<open>object\<close>. Each is written once and flushed at once.
\<close>

theorem bookmark_written_as_raw_event:
  "fst (handleResourceFunc (ex_env (Inr ex_item) (Inr ex_items)) ex_resource [] []
     (ex_request [(''watch'', ''true''), (''allowWatchBookmarks'', ''true'')]
        [Recv ex_bookmark, Recv ex_added, ChanClosed])) =
   [SetContentType stream_content_type,
    CallWatch (''example.com'', ''v1'', ''widgets'') []
      (watch_listOpts [(''watch'', ''true''), (''allowWatchBookmarks'', ''true'')] []),
    Encode (EncEvent ex_bookmark), Flush,
    Encode (EncWatchEvent Added
      (AnyObj (ex_item\<lparr>obj_gvk := (''example.com'', ''v1'', ''Widget'')\<rparr>))), Flush]
   \<and> json_keys (EncEvent ex_bookmark) = Some [''Type'', ''Object'']
   \<and> json_keys (EncWatchEvent Added
        (AnyObj (ex_item\<lparr>obj_gvk := (''example.com'', ''v1'', ''Widget'')\<rparr>)))
      = Some [''type'', ''object'']"
  by (simp add: sample_defs handler_defs ex_bookmark_def ex_added_def)

section \<open>Unwrapping the single object\<close>

text \<open>Without a hook the list that is unwrapped is the synthetic one-item list.\<close>

lemma unwrap_one_item: "unwrap name (AnyList (l\<lparr>list_items := [x]\<rparr>)) \<noteq> Inl p"
  by (simp add: unwrap_def)

text \<open>
  C9 fails on the code: nothing makes the list a hook returns non-empty. The sample get of
  \<open>bar\<close> with a list-transform hook that filters every item out reads element 0 of an
  empty slice and panics.
\<close>

theorem empty_hook_result_panics:
  "handleResourceFunc (ex_env (Inr ex_item) (Inr ex_items))
     (ex_resource\<lparr>ListCallback := Some ex_filter_all\<rparr>) [] ''bar'' (ex_request [] []) =
   ([CallGet [] ''bar'', SetContentType json_content_type],
    Panicked ''runtime error: index out of range [0] with length 0'')"
  by (simp add: sample_defs handler_defs ex_filter_all_def)

section \<open>Registration on the multiplexer\<close>

lemma HandleFunc_Inr:
  "HandleFunc R p h m = Inr m' \<Longrightarrow> patterns m' = insert p (patterns m)"
  by (auto simp: HandleFunc_def patterns_def split: if_splits)

lemma HandleFunc_Inl:
  "HandleFunc R p h m = Inl e \<Longrightarrow> e = MuxRegisterPanic p"
  by (auto simp: HandleFunc_def split: if_splits)

lemma HandleFunc_Inl_mux:
  "HandleFunc R p h m = Inl e \<Longrightarrow> is_mux_panic e"
  by (auto simp: HandleFunc_def split: if_splits)

lemma HandleFunc_registered:
  "p \<in> patterns m \<Longrightarrow> HandleFunc R p h m = Inl (MuxRegisterPanic p)"
  by (auto simp: HandleFunc_def patterns_def list_ex_iff)

lemma register_raw_Inr:
  "register_raw R base eps m = Inr m' \<Longrightarrow> patterns m \<subseteq> patterns m'"
proof (induction eps arbitrary: m)
  case Nil
  then show ?case by simp
next
  case (Cons e eps)
  obtain ep fn where e: "e = (ep, fn)" by (cases e)
  from Cons.prems e obtain m1 where
    h: "HandleFunc R (base @ ep) (RawEndpoint fn) m = Inr m1"
    and r: "register_raw R base eps m1 = Inr m'"
    by (auto split: sum.splits)
  from HandleFunc_Inr[OF h] Cons.IH[OF r] show ?case by auto
qed

lemma register_raw_Inl:
  "register_raw R base eps m = Inl e \<Longrightarrow> is_mux_panic e"
proof (induction eps arbitrary: m)
  case Nil
  then show ?case by simp
next
  case (Cons x eps)
  obtain ep fn where x: "x = (ep, fn)" by (cases x)
  show ?case
  proof (cases "HandleFunc R (base @ ep) (RawEndpoint fn) m")
    case (Inl p)
    with Cons.prems x HandleFunc_Inl_mux[OF Inl] show ?thesis by simp
  next
    case (Inr m1)
    with Cons.prems x Cons.IH[of m1] show ?thesis by simp
  qed
qed

lemma register_resources_Inr:
  "register_resources R base ar rs (m, ns) = Inr (m', ns') \<Longrightarrow>
   patterns m \<subseteq> patterns m' \<and> (rs \<noteq> [] \<longrightarrow> base \<in> patterns m')"
proof (induction rs arbitrary: m ns)
  case Nil
  then show ?case by simp
next
  case (Cons res rest)
  from Cons.prems obtain m1 where
    h1: "HandleFunc R base (ResourceCollection res) m = Inr m1"
    by (auto split: sum.splits)
  note p1 = HandleFunc_Inr[OF h1]
  show ?case
  proof (cases "Namespaced ar")
    case True
    with Cons.prems h1 have
      "register_resources R base ar rest
         (m1, AList.update (Name ar) (ResourceNamespaced res) ns) = Inr (m', ns')"
      by simp
    from Cons.IH[OF this] p1 show ?thesis by auto
  next
    case False
    with Cons.prems h1 obtain m2 where
      h2: "HandleFunc R (base @ ''/'') (ResourceItem res) m1 = Inr m2"
      and r: "register_resources R base ar rest (m2, ns) = Inr (m', ns')"
      by (auto split: sum.splits)
    from Cons.IH[OF r] p1 HandleFunc_Inr[OF h2] show ?thesis by auto
  qed
qed

lemma register_resources_Inl:
  "register_resources R base ar rs st = Inl e \<Longrightarrow> is_mux_panic e"
proof (induction R base ar rs st rule: register_resources.induct)
  case (1 R base ar st)
  then show ?case by simp
next
  case (2 R base ar res rest m ns)
  show ?case
  proof (cases "HandleFunc R base (ResourceCollection res) m")
    case (Inl p)
    with "2.prems" HandleFunc_Inl_mux[OF Inl] show ?thesis by simp
  next
    case (Inr m1)
    show ?thesis
    proof (cases "Namespaced ar")
      case True
      with "2.prems" Inr "2.IH"(2)[OF Inr] show ?thesis by simp
    next
      case False
      show ?thesis
      proof (cases "HandleFunc R (base @ ''/'') (ResourceItem res) m1")
        case (Inl p)
        with "2.prems" Inr False HandleFunc_Inl_mux[OF Inl] show ?thesis by simp
      next
        case (Inr m2)
        with "2.prems" \<open>HandleFunc R base (ResourceCollection res) m = Inr m1\<close> False
          "2.IH"(1)[OF \<open>HandleFunc R base (ResourceCollection res) m = Inr m1\<close> _ Inr]
        show ?thesis by simp
      qed
    qed
  qed
qed

lemma register_resources_registered:
  "base \<in> patterns m \<Longrightarrow> rs \<noteq> [] \<Longrightarrow>
   register_resources R base ar rs (m, ns) = Inl (MuxRegisterPanic base)"
  by (cases rs) (simp_all add: HandleFunc_registered)

lemma register_resources_two:
  assumes "2 \<le> length rs"
  shows "\<exists>p. register_resources R base ar rs (m, ns) = Inl p"
proof (cases "register_resources R base ar rs (m, ns)")
  case (Inl p)
  then show ?thesis by blast
next
  case (Inr st)
  from assms obtain r1 r2 rest where rs: "rs = r1 # r2 # rest"
    by (cases rs; cases "tl rs") auto
  obtain m' ns' where st: "st = (m', ns')" by (cases st)
  from Inr rs obtain m1 ns1 where
    one: "register_resources R base ar [r1] (m, ns) = Inr (m1, ns1)"
    and two: "register_resources R base ar (r2 # rest) (m1, ns1) = Inr st"
    by (auto split: sum.splits if_splits)
  from register_resources_Inr[OF one] have "base \<in> patterns m1" by simp
  from register_resources_registered[OF this, of "r2 # rest" R ar ns1] two
  show ?thesis by simp
qed

lemma register_custom_Inr:
  "register_custom R base ar rs (m, ns) = Inr (m', ns') \<Longrightarrow>
   patterns m \<subseteq> patterns m' \<and> (rs \<noteq> [] \<longrightarrow> base \<in> patterns m')"
proof (induction rs arbitrary: m ns)
  case Nil
  then show ?case by simp
next
  case (Cons res rest)
  from Cons.prems obtain m1 where
    h1: "HandleFunc R base (CustomCollection res) m = Inr m1"
    by (auto split: sum.splits)
  note p1 = HandleFunc_Inr[OF h1]
  show ?case
  proof (cases "Namespaced ar")
    case True
    with Cons.prems h1 have
      "register_custom R base ar rest
         (m1, AList.update (Name ar) (CustomNamespaced res) ns) = Inr (m', ns')"
      by simp
    from Cons.IH[OF this] p1 show ?thesis by auto
  next
    case False
    with Cons.prems h1 obtain m2 where
      h2: "HandleFunc R (base @ ''/'') (CustomItem res) m1 = Inr m2"
      and r: "register_custom R base ar rest (m2, ns) = Inr (m', ns')"
      by (auto split: sum.splits)
    from Cons.IH[OF r] p1 HandleFunc_Inr[OF h2] show ?thesis by auto
  qed
qed

lemma register_custom_Inl:
  "register_custom R base ar rs st = Inl e \<Longrightarrow> is_mux_panic e"
proof (induction R base ar rs st rule: register_custom.induct)
  case (1 R base ar st)
  then show ?case by simp
next
  case (2 R base ar res rest m ns)
  show ?case
  proof (cases "HandleFunc R base (CustomCollection res) m")
    case (Inl p)
    with "2.prems" HandleFunc_Inl_mux[OF Inl] show ?thesis by simp
  next
    case (Inr m1)
    show ?thesis
    proof (cases "Namespaced ar")
      case True
      with "2.prems" Inr "2.IH"(2)[OF Inr] show ?thesis by simp
    next
      case False
      show ?thesis
      proof (cases "HandleFunc R (base @ ''/'') (CustomItem res) m1")
        case (Inl p)
        with "2.prems" Inr False HandleFunc_Inl_mux[OF Inl] show ?thesis by simp
      next
        case (Inr m2)
        with "2.prems" \<open>HandleFunc R base (CustomCollection res) m = Inr m1\<close> False
          "2.IH"(1)[OF \<open>HandleFunc R base (CustomCollection res) m = Inr m1\<close> _ Inr]
        show ?thesis by simp
      qed
    qed
  qed
qed

lemma register_custom_registered:
  "base \<in> patterns m \<Longrightarrow> rs \<noteq> [] \<Longrightarrow>
   register_custom R base ar rs (m, ns) = Inl (MuxRegisterPanic base)"
  by (cases rs) (simp_all add: HandleFunc_registered)

lemma register_custom_two:
  assumes "2 \<le> length rs"
  shows "\<exists>p. register_custom R base ar rs (m, ns) = Inl p"
proof (cases "register_custom R base ar rs (m, ns)")
  case (Inl p)
  then show ?thesis by blast
next
  case (Inr st)
  from assms obtain r1 r2 rest where rs: "rs = r1 # r2 # rest"
    by (cases rs; cases "tl rs") auto
  from Inr rs obtain m1 ns1 where
    one: "register_custom R base ar [r1] (m, ns) = Inr (m1, ns1)"
    and two: "register_custom R base ar (r2 # rest) (m1, ns1) = Inr st"
    by (auto split: sum.splits if_splits)
  from register_custom_Inr[OF one] have "base \<in> patterns m1" by simp
  from register_custom_registered[OF this, of "r2 # rest" R ar ns1] two
  show ?thesis by simp
qed

text \<open>One iteration of the loop over the kinds.\<close>

lemma register_kind_Inl:
  "register_kind R g v ak b = Inl e \<Longrightarrow>
   (e = PanicMsg (''APIResource must be unique: '' @ Name (ApiResource ak))
      \<and> existingApiResources b (Name (ApiResource ak)) \<noteq> None)
   \<or> is_mux_panic e"
  unfolding register_kind_def Let_def
  by (auto split: if_splits sum.splits
      dest: register_raw_Inl register_resources_Inl register_custom_Inl)

lemma register_kind_existing:
  "existingApiResources b (Name (ApiResource ak)) \<noteq> None \<Longrightarrow>
   register_kind R g v ak b =
     Inl (PanicMsg (''APIResource must be unique: '' @ Name (ApiResource ak)))"
  by (simp add: register_kind_def Let_def)

lemma register_kind_Inr:
  "register_kind R g v ak b = Inr b' \<Longrightarrow>
   existingApiResources b' = (existingApiResources b)(Name (ApiResource ak) \<mapsto> True)"
  unfolding register_kind_def Let_def
  by (auto split: if_splits sum.splits)

lemma register_kind_two:
  assumes "2 \<le> length (Resources ak) + length (CustomResources ak)"
  shows "\<exists>p. register_kind R g v ak b = Inl p"
proof (cases "register_kind R g v ak b")
  case (Inl p)
  then show ?thesis by blast
next
  case (Inr b')
  let ?ar = "ApiResource ak"
  let ?base = "resource_path g v (Name ?ar)"
  from Inr obtain m1 m2 ns2 m3 ns3 where
    rs: "register_resources R ?base ?ar (Resources ak) (m1, resourceHandlersNamespaced b)
           = Inr (m2, ns2)"
    and cs: "register_custom R ?base ?ar (CustomResources ak) (m2, ns2) = Inr (m3, ns3)"
    unfolding register_kind_def Let_def
    by (auto split: if_splits sum.splits)
  from register_resources_two[of "Resources ak" R ?base ?ar m1 "resourceHandlersNamespaced b"] rs
  have r2: "length (Resources ak) < 2" by (cases "2 \<le> length (Resources ak)") auto
  from register_custom_two[of "CustomResources ak" R ?base ?ar m2 ns2] cs
  have c2: "length (CustomResources ak) < 2" by (cases "2 \<le> length (CustomResources ak)") auto
  from assms r2 c2 have ne: "Resources ak \<noteq> []" "CustomResources ak \<noteq> []" by auto
  from register_resources_Inr[OF rs] ne have "?base \<in> patterns m2" by simp
  from register_custom_registered[OF this ne(2), of R ?ar ns2] cs
  show ?thesis by simp
qed

text \<open>The loop over the kinds.\<close>

lemma register_kinds_append:
  "register_kinds R g v (pre @ post) b =
     (case register_kinds R g v pre b of
        Inl p \<Rightarrow> Inl p
      | Inr b' \<Rightarrow> register_kinds R g v post b')"
  by (induction pre arbitrary: b) (simp_all split: sum.splits)

lemma register_kinds_Inr:
  "register_kinds R g v aks b = Inr b' \<Longrightarrow>
   dom (existingApiResources b') =
     dom (existingApiResources b) \<union> set (map (\<lambda>k. Name (ApiResource k)) aks)"
proof (induction aks arbitrary: b)
  case Nil
  then show ?case by simp
next
  case (Cons ak aks)
  from Cons.prems obtain b1 where
    k: "register_kind R g v ak b = Inr b1"
    and r: "register_kinds R g v aks b1 = Inr b'"
    by (auto split: sum.splits)
  from Cons.IH[OF r] register_kind_Inr[OF k] show ?case by auto
qed

lemma register_kinds_two:
  assumes "ak \<in> set aks"
    and "2 \<le> length (Resources ak) + length (CustomResources ak)"
  shows "\<exists>p. register_kinds R g v aks b = Inl p"
  using assms(1)
proof (induction aks arbitrary: b)
  case Nil
  then show ?case by simp
next
  case (Cons x aks)
  show ?case
  proof (cases "register_kind R g v x b")
    case (Inl p)
    then show ?thesis by simp
  next
    case (Inr b1)
    with register_kind_two[OF assms(2), of R g v b] have "x \<noteq> ak" by auto
    with Cons.prems have "ak \<in> set aks" by simp
    from Cons.IH[OF this, of b1] Inr show ?thesis by simp
  qed
qed

lemma register_kinds_Inl:
  assumes "register_kinds R g v aks b = Inl e"
    and "distinct (map (\<lambda>k. Name (ApiResource k)) aks)"
    and "set (map (\<lambda>k. Name (ApiResource k)) aks) \<inter> dom (existingApiResources b) = {}"
  shows "is_mux_panic e"
  using assms
proof (induction aks arbitrary: b)
  case Nil
  then show ?case by simp
next
  case (Cons x aks)
  show ?case
  proof (cases "register_kind R g v x b")
    case (Inl p)
    with Cons.prems(1) have "p = e" by simp
    with register_kind_Inl[OF Inl] Cons.prems(3) show ?thesis by auto
  next
    case (Inr b1)
    with Cons.prems(1) have r: "register_kinds R g v aks b1 = Inl e" by simp
    from register_kind_Inr[OF Inr] Cons.prems(2,3)
    have "set (map (\<lambda>k. Name (ApiResource k)) aks) \<inter> dom (existingApiResources b1) = {}"
      by auto
    with Cons.IH[OF r] Cons.prems(2) show ?thesis by simp
  qed
qed

lemma register_kinds_duplicate:
  assumes "Name (ApiResource ak) \<in> set (map (\<lambda>k. Name (ApiResource k)) pre)"
  shows "register_kinds R g v (pre @ ak # post) b =
     (case register_kinds R g v pre b of
        Inl p \<Rightarrow> Inl p
      | Inr b' \<Rightarrow> Inl (PanicMsg (''APIResource must be unique: '' @ Name (ApiResource ak))))"
proof (cases "register_kinds R g v pre b")
  case (Inl p)
  then show ?thesis by (simp add: register_kinds_append)
next
  case (Inr b')
  from register_kinds_Inr[OF Inr] assms
  have "existingApiResources b' (Name (ApiResource ak)) \<noteq> None" by auto
  from register_kind_existing[OF this] Inr show ?thesis
    by (simp add: register_kinds_append)
qed

lemma initial_routes_existing:
  "initial_routes R config = Inr b0 \<Longrightarrow> existingApiResources b0 = Map.empty"
  by (auto simp: initial_routes_def split: sum.splits)

lemma initial_routes_Inl:
  "initial_routes R config = Inl e \<Longrightarrow> is_mux_panic e"
  by (auto simp: initial_routes_def split: sum.splits dest: HandleFunc_Inl_mux)

lemma final_routes_Inl:
  "final_routes R config b = Inl e \<Longrightarrow> is_mux_panic e"
  by (auto simp: final_routes_def split: sum.splits if_splits dest: HandleFunc_Inl_mux)


text \<open>
  A pattern is registered at most once: the routes of a server that was built have
  pairwise different patterns.
\<close>

lemma HandleFunc_distinct:
  "HandleFunc R p h m = Inr m' \<Longrightarrow> distinct (map fst m) \<Longrightarrow> distinct (map fst m')"
  by (auto simp: HandleFunc_def list_ex_iff split: if_splits)

lemma register_raw_distinct:
  "register_raw R base eps m = Inr m' \<Longrightarrow> distinct (map fst m) \<Longrightarrow> distinct (map fst m')"
proof (induction eps arbitrary: m)
  case Nil
  then show ?case by simp
next
  case (Cons e eps)
  obtain ep fn where e: "e = (ep, fn)" by (cases e)
  from Cons.prems e obtain m1 where
    h: "HandleFunc R (base @ ep) (RawEndpoint fn) m = Inr m1"
    and r: "register_raw R base eps m1 = Inr m'"
    by (auto split: sum.splits)
  from Cons.IH[OF r HandleFunc_distinct[OF h Cons.prems(2)]] show ?case .
qed

lemma register_resources_distinct:
  "register_resources R base ar rs st = Inr st' \<Longrightarrow> distinct (map fst (fst st)) \<Longrightarrow>
   distinct (map fst (fst st'))"
proof (induction R base ar rs st rule: register_resources.induct)
  case (1 R base ar st)
  then show ?case by simp
next
  case (2 R base ar res rest m ns)
  from "2.prems"(1) obtain m1 where
    h1: "HandleFunc R base (ResourceCollection res) m = Inr m1"
    by (auto split: sum.splits)
  from HandleFunc_distinct[OF h1] "2.prems"(2) have d1: "distinct (map fst m1)" by simp
  show ?case
  proof (cases "Namespaced ar")
    case True
    with "2.prems"(1) h1 "2.IH"(2)[OF h1] d1 show ?thesis by simp
  next
    case False
    with "2.prems"(1) h1 obtain m2 where
      h2: "HandleFunc R (base @ ''/'') (ResourceItem res) m1 = Inr m2"
      and r: "register_resources R base ar rest (m2, ns) = Inr st'"
      by (auto split: sum.splits)
    from "2.IH"(1)[OF h1 _ h2 r] False HandleFunc_distinct[OF h2 d1] show ?thesis by simp
  qed
qed

lemma register_custom_distinct:
  "register_custom R base ar rs st = Inr st' \<Longrightarrow> distinct (map fst (fst st)) \<Longrightarrow>
   distinct (map fst (fst st'))"
proof (induction R base ar rs st rule: register_custom.induct)
  case (1 R base ar st)
  then show ?case by simp
next
  case (2 R base ar res rest m ns)
  from "2.prems"(1) obtain m1 where
    h1: "HandleFunc R base (CustomCollection res) m = Inr m1"
    by (auto split: sum.splits)
  from HandleFunc_distinct[OF h1] "2.prems"(2) have d1: "distinct (map fst m1)" by simp
  show ?case
  proof (cases "Namespaced ar")
    case True
    with "2.prems"(1) h1 "2.IH"(2)[OF h1] d1 show ?thesis by simp
  next
    case False
    with "2.prems"(1) h1 obtain m2 where
      h2: "HandleFunc R (base @ ''/'') (CustomItem res) m1 = Inr m2"
      and r: "register_custom R base ar rest (m2, ns) = Inr st'"
      by (auto split: sum.splits)
    from "2.IH"(1)[OF h1 _ h2 r] False HandleFunc_distinct[OF h2 d1] show ?thesis by simp
  qed
qed

lemma register_kind_distinct:
  assumes "register_kind R g v ak b = Inr b'" and "distinct (map fst (srv_mux b))"
  shows "distinct (map fst (srv_mux b'))"
proof -
  let ?ar = "ApiResource ak"
  let ?base = "resource_path g v (Name ?ar)"
  from assms(1) obtain m1 st2 m3 ns3 where
    raw: "register_raw R ?base (RawEndpoints ak) (srv_mux b) = Inr m1"
    and rs: "register_resources R ?base ?ar (Resources ak) (m1, resourceHandlersNamespaced b)
               = Inr st2"
    and cs: "register_custom R ?base ?ar (CustomResources ak) st2 = Inr (m3, ns3)"
    and b': "srv_mux b' = m3"
    unfolding register_kind_def Let_def
    by (auto split: if_splits sum.splits)
  from register_raw_distinct[OF raw assms(2)] have "distinct (map fst m1)" .
  with register_resources_distinct[OF rs] have "distinct (map fst (fst st2))" by simp
  with register_custom_distinct[OF cs] b' show ?thesis by simp
qed

lemma register_kinds_distinct:
  "register_kinds R g v aks b = Inr b' \<Longrightarrow> distinct (map fst (srv_mux b)) \<Longrightarrow>
   distinct (map fst (srv_mux b'))"
proof (induction aks arbitrary: b)
  case Nil
  then show ?case by simp
next
  case (Cons ak aks)
  from Cons.prems(1) obtain b1 where
    k: "register_kind R g v ak b = Inr b1"
    and r: "register_kinds R g v aks b1 = Inr b'"
    by (auto split: sum.splits)
  from Cons.IH[OF r register_kind_distinct[OF k Cons.prems(2)]] show ?case .
qed

lemma initial_routes_distinct:
  "initial_routes R config = Inr b0 \<Longrightarrow> distinct (map fst (srv_mux b0))"
  by (auto simp: initial_routes_def split: sum.splits dest!: HandleFunc_distinct)

lemma final_routes_distinct:
  "final_routes R config b = Inr m \<Longrightarrow> distinct (map fst (srv_mux b)) \<Longrightarrow>
   distinct (map fst m)"
  by (auto simp: final_routes_def split: sum.splits if_splits dest: HandleFunc_distinct)

lemma NewServer_patterns_distinct:
  assumes "NewServer R config = Inr srv"
  shows "distinct (map fst (mux srv))"
proof -
  from assms obtain b0 b m where
    i: "initial_routes R config = Inr b0"
    and k: "register_kinds R (Group config) (Version config) (APIKinds config) b0 = Inr b"
    and f: "final_routes R config b = Inr m"
    and s: "mux srv = m"
    unfolding NewServer_def by (auto split: sum.splits)
  from final_routes_distinct[OF f register_kinds_distinct[OF k initial_routes_distinct[OF i]]] s
  show ?thesis by simp
qed

lemmas server_defs =
  NewServer_def initial_routes_def final_routes_def register_kind_def HandleFunc_def
  resource_path_def ex_rules_def ex_widgets_def ex_gadgets_def ex_config_def ex_resource_def

text \<open>The sample server with its two kinds is built, with these routes in this order.\<close>

lemma ex_NewServer_routes:
  "map_sum id (\<lambda>srv. map fst (mux srv)) (NewServer ex_rules (ex_config [ex_widgets, ex_gadgets]))
   = Inr [''/healthz'', ''/readyz'', ''/apis'', ''/apis/example.com/v1/widgets'',
          ''/apis/example.com/v1/widgets/'', ''/apis/example.com/v1/gadgets'',
          ''/apis/example.com/v1'', ''/apis/example.com/v1/namespaces/'']"
  by (simp add: server_defs)

section \<open>Duplicate resource names\<close>

text \<open>
  C8, as the code has it. When the name of a kind already occurs among the kinds before
  it, construction fails: \<^verbatim>\<open>NewServer\<close> panics and no server, hence no route table, is
  produced. The panic is \<open>APIResource must be unique: <name>\<close> for that kind, raised when
  the loop reaches it, provided the fixed routes and the routes of the kinds before it
  were registered; otherwise it is the panic of the multiplexer that stopped the
  registration earlier. With the first duplicate for \<open>ak\<close> the kinds before it have
  distinct names, and only the multiplexer can stop the loop before \<open>ak\<close>.
\<close>

theorem NewServer_duplicate_name:
  assumes "APIKinds config = pre @ ak # post"
    and "Name (ApiResource ak) \<in> set (map (\<lambda>k. Name (ApiResource k)) pre)"
  shows "(\<exists>p. NewServer R config = Inl p)
         \<and> NewServer R config =
           (case initial_routes R config of
              Inl p \<Rightarrow> Inl p
            | Inr b0 \<Rightarrow>
                (case register_kinds R (Group config) (Version config) pre b0 of
                   Inl p \<Rightarrow> Inl p
                 | Inr b \<Rightarrow>
                     Inl (PanicMsg (''APIResource must be unique: ''
                                    @ Name (ApiResource ak)))))"
proof -
  have eq: "NewServer R config =
           (case initial_routes R config of
              Inl p \<Rightarrow> Inl p
            | Inr b0 \<Rightarrow>
                (case register_kinds R (Group config) (Version config) pre b0 of
                   Inl p \<Rightarrow> Inl p
                 | Inr b \<Rightarrow>
                     Inl (PanicMsg (''APIResource must be unique: ''
                                    @ Name (ApiResource ak)))))"
    unfolding NewServer_def assms(1)
    by (simp add: register_kinds_duplicate[OF assms(2)] split: sum.splits)
  then have "\<exists>p. NewServer R config = Inl p"
    by (auto split: sum.splits)
  with eq show ?thesis by blast
qed


text \<open>
  The kinds \<open>widgets\<close>, \<open>gadgets\<close>, \<open>widgets\<close>: construction panics at the third, naming
  \<open>widgets\<close>.
\<close>

theorem NewServer_duplicate_name_witness:
  "APIKinds (ex_config [ex_widgets, ex_gadgets, ex_widgets])
     = [ex_widgets, ex_gadgets] @ ex_widgets # []
   \<and> Name (ApiResource ex_widgets)
       \<in> set (map (\<lambda>k. Name (ApiResource k)) [ex_widgets, ex_gadgets])
   \<and> NewServer ex_rules (ex_config [ex_widgets, ex_gadgets, ex_widgets])
     = Inl (PanicMsg ''APIResource must be unique: widgets'')"
proof -
  have a: "APIKinds (ex_config [ex_widgets, ex_gadgets, ex_widgets])
             = [ex_widgets, ex_gadgets] @ ex_widgets # []"
    by (simp add: ex_config_def)
  have b: "Name (ApiResource ex_widgets)
             \<in> set (map (\<lambda>k. Name (ApiResource k)) [ex_widgets, ex_gadgets])"
    by (simp add: ex_widgets_def)
  from NewServer_duplicate_name[OF a b, of ex_rules] a b show ?thesis
    by (simp add: server_defs)
qed

text \<open>
  C8 as the specification states it fails: with the kinds \<open>widgets\<close> (two entries in
  \<^verbatim>\<open>Resources\<close>), \<open>gadgets\<close>, \<open>gadgets\<close> the first duplicate name is \<open>gadgets\<close>, yet
  construction ends in the panic of the multiplexer for the route of \<open>widgets\<close>, which
  does not name the duplicate.
\<close>

theorem NewServer_duplicate_name_preempted:
  "NewServer ex_rules (ex_config [ex_widgets_twice, ex_gadgets, ex_gadgets])
     = Inl (MuxRegisterPanic ''/apis/example.com/v1/widgets'')
   \<and> NewServer ex_rules (ex_config [ex_widgets_twice, ex_gadgets, ex_gadgets])
     \<noteq> Inl (PanicMsg ''APIResource must be unique: gadgets'')"
  by (simp add: server_defs ex_widgets_twice_def)

section \<open>More than one binding for a kind\<close>

text \<open>
  C10. Construction completes only if every kind carries at most one entry in
  \<^verbatim>\<open>Resources\<close> and \<^verbatim>\<open>CustomResources\<close> together: for a kind with two or more (two
  structured resources, or a structured and a custom one, or two custom ones) the
  collection route of the kind is registered a second time and \<^verbatim>\<open>NewServer\<close> panics, so
  no server is produced. When all resource names are distinct, the panic is the one of
  the multiplexer.
\<close>

theorem NewServer_one_binding_per_kind:
  assumes "ak \<in> set (APIKinds config)"
    and "2 \<le> length (Resources ak) + length (CustomResources ak)"
  shows "(\<exists>p. NewServer R config = Inl p)
         \<and> (distinct (map (\<lambda>k. Name (ApiResource k)) (APIKinds config))
              \<longrightarrow> (\<exists>pat. NewServer R config = Inl (MuxRegisterPanic pat)))"
proof -
  have fails: "\<exists>p. NewServer R config = Inl p"
  proof (cases "initial_routes R config")
    case (Inl p)
    then show ?thesis by (simp add: NewServer_def)
  next
    case (Inr b0)
    from register_kinds_two[OF assms, of R "Group config" "Version config" b0] Inr
    show ?thesis by (auto simp: NewServer_def)
  qed
  have "\<exists>pat. NewServer R config = Inl (MuxRegisterPanic pat)"
    if d: "distinct (map (\<lambda>k. Name (ApiResource k)) (APIKinds config))"
  proof -
    from fails obtain p where p: "NewServer R config = Inl p" by blast
    have "is_mux_panic p"
    proof (cases "initial_routes R config")
      case (Inl e)
      with p initial_routes_Inl[OF Inl] show ?thesis by (simp add: NewServer_def)
    next
      case (Inr b0)
      note b0 = this
      show ?thesis
      proof (cases "register_kinds R (Group config) (Version config) (APIKinds config) b0")
        case (Inl e)
        from register_kinds_Inl[OF Inl d] initial_routes_existing[OF b0]
        have "is_mux_panic e" by simp
        with p b0 Inl show ?thesis by (simp add: NewServer_def)
      next
        case (Inr b)
        with p b0 final_routes_Inl[of R config b p] show ?thesis
          by (auto simp: NewServer_def split: sum.splits)
      qed
    qed
    with p show ?thesis by (cases p) auto
  qed
  with fails show ?thesis by blast
qed

text \<open>
  The single kind \<open>widgets\<close> with two entries in \<^verbatim>\<open>Resources\<close>: all names are distinct
  and the multiplexer panics on the second registration of the collection route.
\<close>

theorem NewServer_one_binding_per_kind_witness:
  "ex_widgets_twice \<in> set (APIKinds (ex_config [ex_widgets_twice]))
   \<and> 2 \<le> length (Resources ex_widgets_twice) + length (CustomResources ex_widgets_twice)
   \<and> distinct (map (\<lambda>k. Name (ApiResource k)) (APIKinds (ex_config [ex_widgets_twice])))
   \<and> NewServer ex_rules (ex_config [ex_widgets_twice])
     = Inl (MuxRegisterPanic ''/apis/example.com/v1/widgets'')"
proof -
  have a: "ex_widgets_twice \<in> set (APIKinds (ex_config [ex_widgets_twice]))"
    by (simp add: ex_config_def)
  have b: "2 \<le> length (Resources ex_widgets_twice) + length (CustomResources ex_widgets_twice)"
    by (simp add: ex_widgets_twice_def ex_widgets_def)
  have d: "distinct (map (\<lambda>k. Name (ApiResource k)) (APIKinds (ex_config [ex_widgets_twice])))"
    by (simp add: ex_config_def)
  from NewServer_one_binding_per_kind[OF a b, of ex_rules] a b d show ?thesis
    by (simp add: server_defs ex_widgets_twice_def)
qed

end
